theory Spec2Isabelle
  imports Complex_Main "HOL-Library.AList"
begin

section \<open>Floating-point values\<close>

text \<open>
  The tables of the program hold NumPy \<^verbatim>\<open>float64\<close> values. A value is a finite
  number, one of the two infinities, or NaN (the missing value of pandas). Finite
  numbers are idealised as reals: rounding, overflow and the sign of zero are not
  part of this development. The arithmetic below is IEEE 754 on that idealisation:
  it never raises, a division by zero gives an infinity or NaN, and NaN is absorbing.
\<close>

datatype fval = Fin real | PInf | NInf | NaN

fun fneg :: "fval \<Rightarrow> fval" where
  "fneg (Fin a) = Fin (- a)"
| "fneg PInf = NInf"
| "fneg NInf = PInf"
| "fneg NaN = NaN"

fun fadd :: "fval \<Rightarrow> fval \<Rightarrow> fval" where
  "fadd NaN _ = NaN"
| "fadd _ NaN = NaN"
| "fadd (Fin a) (Fin b) = Fin (a + b)"
| "fadd PInf NInf = NaN"
| "fadd NInf PInf = NaN"
| "fadd PInf _ = PInf"
| "fadd _ PInf = PInf"
| "fadd NInf _ = NInf"
| "fadd _ NInf = NInf"

definition fsub :: "fval \<Rightarrow> fval \<Rightarrow> fval" where
  "fsub a b = fadd a (fneg b)"

fun fmul :: "fval \<Rightarrow> fval \<Rightarrow> fval" where
  "fmul NaN _ = NaN"
| "fmul _ NaN = NaN"
| "fmul (Fin a) (Fin b) = Fin (a * b)"
| "fmul (Fin a) PInf = (if a = 0 then NaN else if 0 < a then PInf else NInf)"
| "fmul (Fin a) NInf = (if a = 0 then NaN else if 0 < a then NInf else PInf)"
| "fmul PInf (Fin b) = (if b = 0 then NaN else if 0 < b then PInf else NInf)"
| "fmul NInf (Fin b) = (if b = 0 then NaN else if 0 < b then NInf else PInf)"
| "fmul PInf PInf = PInf"
| "fmul NInf NInf = PInf"
| "fmul PInf NInf = NInf"
| "fmul NInf PInf = NInf"

fun fdiv :: "fval \<Rightarrow> fval \<Rightarrow> fval" where
  "fdiv NaN _ = NaN"
| "fdiv _ NaN = NaN"
| "fdiv (Fin a) (Fin b) =
     (if b = 0 then (if a = 0 then NaN else if 0 < a then PInf else NInf)
      else Fin (a / b))"
| "fdiv (Fin a) PInf = Fin 0"
| "fdiv (Fin a) NInf = Fin 0"
| "fdiv PInf (Fin b) = (if 0 \<le> b then PInf else NInf)"
| "fdiv NInf (Fin b) = (if 0 \<le> b then NInf else PInf)"
| "fdiv PInf PInf = NaN"
| "fdiv PInf NInf = NaN"
| "fdiv NInf PInf = NaN"
| "fdiv NInf NInf = NaN"

text \<open>Comparisons: every comparison with NaN is false.\<close>

fun flt :: "fval \<Rightarrow> fval \<Rightarrow> bool" where
  "flt NaN _ = False"
| "flt _ NaN = False"
| "flt (Fin a) (Fin b) = (a < b)"
| "flt (Fin a) PInf = True"
| "flt NInf (Fin b) = True"
| "flt NInf PInf = True"
| "flt _ _ = False"

definition fgt :: "fval \<Rightarrow> fval \<Rightarrow> bool" where
  "fgt a b = flt b a"

fun fle :: "fval \<Rightarrow> fval \<Rightarrow> bool" where
  "fle NaN _ = False"
| "fle _ NaN = False"
| "fle (Fin a) (Fin b) = (a \<le> b)"
| "fle NInf _ = True"
| "fle _ PInf = True"
| "fle _ _ = False"

definition fge :: "fval \<Rightarrow> fval \<Rightarrow> bool" where
  "fge a b = fle b a"

text \<open>The larger of two values that are not NaN.\<close>

definition fmax :: "fval \<Rightarrow> fval \<Rightarrow> fval" where
  "fmax a b = (if flt a b then b else a)"

fun fsqrt :: "fval \<Rightarrow> fval" where
  "fsqrt (Fin a) = (if a < 0 then NaN else Fin (sqrt a))"
| "fsqrt PInf = PInf"
| "fsqrt NInf = NaN"
| "fsqrt NaN = NaN"

text \<open>
  \<^verbatim>\<open>x ** e\<close> for a finite exponent \<open>e > 0\<close>: a negative base has a power
  only when the exponent is a whole number.
\<close>

fun fpow :: "fval \<Rightarrow> real \<Rightarrow> fval" where
  "fpow (Fin a) e =
     (if 0 \<le> a then Fin (a powr e)
      else if e = of_int \<lfloor>e\<rfloor> then Fin (a ^ nat \<lfloor>e\<rfloor>)
      else NaN)"
| "fpow PInf e = PInf"
| "fpow NInf e = (if e = of_int \<lfloor>e\<rfloor> \<and> odd \<lfloor>e\<rfloor> then NInf else PInf)"
| "fpow NaN e = NaN"

section \<open>Errors\<close>

text \<open>The exceptions the modelled code can raise, as values.\<close>

datatype error = KeyError string | ValueError | IndexError | TypeError

definition ebind :: "error + 'a \<Rightarrow> ('a \<Rightarrow> error + 'b) \<Rightarrow> error + 'b" where
  "ebind m f = (case m of Inl e \<Rightarrow> Inl e | Inr x \<Rightarrow> f x)"

text \<open>
  The decimal digits of a number: the text of a row label in an error, and of the
  window in the column name \<^verbatim>\<open>f'rsi_{window}'\<close>.
\<close>

fun nat_str :: "nat \<Rightarrow> string" where
  "nat_str n =
     (if n < 10 then [''0123456789'' ! n]
      else nat_str (n div 10) @ [''0123456789'' ! (n mod 10)])"

section \<open>Columns and the pandas operations on them\<close>

type_synonym column = "fval list"

text \<open>\<^verbatim>\<open>Series.shift(1)\<close>: every value moves one row down, the first row is NaN.\<close>

definition shift1 :: "column \<Rightarrow> column" where
  "shift1 xs = (if xs = [] then [] else NaN # butlast xs)"

text \<open>
  \<^verbatim>\<open>Series.cumsum()\<close> and \<^verbatim>\<open>Series.cummax()\<close> skip missing values: a NaN row
  stays NaN and does not enter the running value.
\<close>

fun cumsum_from :: "fval \<Rightarrow> column \<Rightarrow> column" where
  "cumsum_from acc [] = []"
| "cumsum_from acc (x # xs) =
     (if x = NaN then NaN # cumsum_from acc xs
      else fadd acc x # cumsum_from (fadd acc x) xs)"

definition cumsum :: "column \<Rightarrow> column" where
  "cumsum xs = cumsum_from (Fin 0) xs"

fun cummax_from :: "fval \<Rightarrow> column \<Rightarrow> column" where
  "cummax_from acc [] = []"
| "cummax_from acc (x # xs) =
     (if x = NaN then NaN # cummax_from acc xs
      else fmax acc x # cummax_from (fmax acc x) xs)"

definition cummax :: "column \<Rightarrow> column" where
  "cummax xs = cummax_from NInf xs"

text \<open>\<^verbatim>\<open>Series.diff()\<close>: the difference to the row before; NaN in the first row.\<close>

definition diff :: "column \<Rightarrow> column" where
  "diff xs = (if xs = [] then [] else NaN # map2 fsub (tl xs) (butlast xs))"

definition fillna :: "fval \<Rightarrow> column \<Rightarrow> column" where
  "fillna v xs = map (\<lambda>x. if x = NaN then v else x) xs"

text \<open>\<^verbatim>\<open>Series.ffill()\<close>: a missing value takes the last value before it.\<close>

fun ffill_from :: "fval \<Rightarrow> column \<Rightarrow> column" where
  "ffill_from prev [] = []"
| "ffill_from prev (x # xs) =
     (if x = NaN then prev # ffill_from prev xs else x # ffill_from x xs)"

definition ffill :: "column \<Rightarrow> column" where
  "ffill xs = ffill_from NaN xs"

text \<open>
  \<^verbatim>\<open>Series.pct_change()\<close>: missing values are forward-filled first (the default
  fill method), then each row is divided by the row before, minus one.
\<close>

definition pct_change :: "column \<Rightarrow> column" where
  "pct_change xs =
     (let d = ffill xs in map2 (\<lambda>a b. fsub (fdiv a b) (Fin 1)) d (shift1 d))"

text \<open>The reductions \<^verbatim>\<open>max()\<close>, \<^verbatim>\<open>mean()\<close> and \<^verbatim>\<open>std()\<close> skip missing values;
  \<^verbatim>\<open>std()\<close> is the sample deviation (one degree of freedom removed).\<close>

definition dropna :: "column \<Rightarrow> column" where
  "dropna xs = filter (\<lambda>x. x \<noteq> NaN) xs"

definition fsum :: "column \<Rightarrow> fval" where
  "fsum xs = foldl fadd (Fin 0) xs"

definition pd_max :: "column \<Rightarrow> fval" where
  "pd_max xs = (case dropna xs of [] \<Rightarrow> NaN | y # ys \<Rightarrow> foldl fmax y ys)"

definition pd_mean :: "column \<Rightarrow> fval" where
  "pd_mean xs =
     (let ys = dropna xs
      in if ys = [] then NaN else fdiv (fsum ys) (Fin (real (length ys))))"

definition pd_std :: "column \<Rightarrow> fval" where
  "pd_std xs =
     (let ys = dropna xs; n = length ys
      in if n < 2 then NaN
         else fsqrt (fdiv (fsum (map (\<lambda>y. fmul (fsub y (pd_mean ys)) (fsub y (pd_mean ys))) ys))
                          (Fin (real (n - 1)))))"

section \<open>The backtester\<close>

text \<open>
  \<^verbatim>\<open>Backtester.run_backtest\<close> of \<^verbatim>\<open>analysis/backtest.py\<close>. The backtester holds two
  tables on one time index: the price table, of which it reads the column
  \<^verbatim>\<open>close\<close> (finite prices), and the signal table, of which it reads the integer
  column \<^verbatim>\<open>signal\<close>. Rows are numbered from 0; the portfolio is indexed as the
  signal table is, and a price column is read on that index (a row the price table
  does not have is missing there).
\<close>

definition reindex :: "nat \<Rightarrow> column \<Rightarrow> column" where
  "reindex n xs = map (\<lambda>i. if i < length xs then xs ! i else NaN) [0..<n]"

record portfolio_table =
  holdings :: column
  cash :: column
  total_col :: column
  returns :: column

record performance =
  initial_capital :: real
  final_value :: fval
  total_return_pct :: fval
  annualized_return_pct :: fval
  max_drawdown_pct :: fval
  sharpe_ratio :: fval
  total_trades :: nat
  buy_trades :: nat
  sell_trades :: nat
  buy_success_rate :: real
  sell_success_rate :: real
  portfolio :: portfolio_table
  positions :: column

text \<open>Lines 17-22: the decisions are shifted by one row and summed up.\<close>

definition bt_signal :: "int list \<Rightarrow> column" where
  "bt_signal signals_signal = shift1 (map (\<lambda>s. Fin (of_int s)) signals_signal)"

definition bt_position :: "int list \<Rightarrow> column" where
  "bt_position signals_signal = cumsum (bt_signal signals_signal)"

text \<open>Lines 24-29: holdings, cash, total value and returns.\<close>

definition bt_close :: "real list \<Rightarrow> int list \<Rightarrow> column" where
  "bt_close data_close signals_signal =
     reindex (length signals_signal) (map Fin data_close)"

definition bt_holdings :: "real list \<Rightarrow> int list \<Rightarrow> column" where
  "bt_holdings data_close signals_signal =
     map2 fmul (bt_position signals_signal) (bt_close data_close signals_signal)"

definition bt_cash :: "real list \<Rightarrow> int list \<Rightarrow> real \<Rightarrow> real \<Rightarrow> column" where
  "bt_cash data_close signals_signal capital commission =
     map (\<lambda>x. fsub (Fin capital) x)
       (cumsum (map (\<lambda>x. fmul x (Fin (1 + commission)))
          (map2 fmul (diff (bt_position signals_signal))
             (bt_close data_close signals_signal))))"

definition bt_total :: "real list \<Rightarrow> int list \<Rightarrow> real \<Rightarrow> real \<Rightarrow> column" where
  "bt_total data_close signals_signal capital commission =
     map2 fadd (bt_cash data_close signals_signal capital commission)
       (bt_holdings data_close signals_signal)"

definition bt_returns :: "column \<Rightarrow> column" where
  "bt_returns tot = fillna (Fin 0) (pct_change tot)"

text \<open>Lines 35-38: the drawdown column and its maximum.\<close>

definition bt_drawdown :: "column \<Rightarrow> column" where
  "bt_drawdown tot =
     (let cum_max = cummax tot
      in map2 fdiv (map2 fsub cum_max tot) cum_max)"

definition bt_max_drawdown :: "column \<Rightarrow> fval" where
  "bt_max_drawdown tot = pd_max (bt_drawdown tot)"

text \<open>Lines 40-45: the Sharpe ratio, with its guard.\<close>

definition bt_sharpe :: "column \<Rightarrow> fval" where
  "bt_sharpe rets =
     (if 1 < length rets \<and> pd_std rets \<noteq> Fin 0
      then fmul (fdiv (pd_mean rets) (pd_std rets)) (Fin (sqrt 252))
      else Fin 0)"

text \<open>
  Lines 47-56: the trades and their success rates. The closes of the trade rows are
  selected by label (a \<^verbatim>\<open>KeyError\<close> when the price table lacks a row), shifted up
  by five places within that selection and compared with themselves.
\<close>

definition bt_trades :: "int list \<Rightarrow> column" where
  "bt_trades signals_signal = fillna (Fin 0) (diff (bt_position signals_signal))"

definition trade_rows :: "(fval \<Rightarrow> bool) \<Rightarrow> column \<Rightarrow> nat list" where
  "trade_rows sel trades = filter (\<lambda>i. sel (trades ! i)) [0..<length trades]"

definition shift_up5 :: "column \<Rightarrow> column" where
  "shift_up5 xs = drop 5 xs @ replicate (min 5 (length xs)) NaN"

definition success_rate :: "(fval \<Rightarrow> fval \<Rightarrow> bool) \<Rightarrow> real list \<Rightarrow> nat list \<Rightarrow> error + real" where
  "success_rate cmp data_close rows =
     (if rows = [] then Inr 0
      else if list_ex (\<lambda>i. length data_close \<le> i) rows
      then Inl (KeyError (nat_str (hd (filter (\<lambda>i. length data_close \<le> i) rows))))
      else let c = map (\<lambda>i. Fin (data_close ! i)) rows
           in Inr (real (length (filter (\<lambda>(a, b). cmp a b) (zip (shift_up5 c) c)))
                    / real (length c)))"

definition run_backtest ::
  "real list \<Rightarrow> int list \<Rightarrow> real \<Rightarrow> real \<Rightarrow> error + performance" where
  "run_backtest data_close signals_signal capital commission =
     (let position = bt_position signals_signal;
          tot = bt_total data_close signals_signal capital commission;
          rets = bt_returns tot;
          trades = bt_trades signals_signal;
          buys = trade_rows (\<lambda>x. fgt x (Fin 0)) trades;
          sells = trade_rows (\<lambda>x. flt x (Fin 0)) trades
      in if tot = [] then Inl IndexError
         else
           ebind (success_rate fgt data_close buys) (\<lambda>buy_success.
           ebind (success_rate flt data_close sells) (\<lambda>sell_success.
           Inr \<lparr> initial_capital = capital,
                 final_value = last tot,
                 total_return_pct =
                   fmul (fsub (fdiv (last tot) (Fin capital)) (Fin 1)) (Fin 100),
                 annualized_return_pct =
                   fmul (fsub (fpow (fdiv (last tot) (Fin capital))
                                 (252 / real (max (length tot) 1))) (Fin 1)) (Fin 100),
                 max_drawdown_pct = fmul (bt_max_drawdown tot) (Fin 100),
                 sharpe_ratio = bt_sharpe rets,
                 total_trades = length buys + length sells,
                 buy_trades = length buys,
                 sell_trades = length sells,
                 buy_success_rate = buy_success * 100,
                 sell_success_rate = sell_success * 100,
                 portfolio = \<lparr> holdings = bt_holdings data_close signals_signal,
                               cash = bt_cash data_close signals_signal capital commission,
                               total_col = tot,
                               returns = rets \<rparr>,
                 positions = position \<rparr>)))"

section \<open>Tables and the store\<close>

text \<open>
  A pandas table has an index (here: the rows \<open>0, \<dots>, nrows - 1\<close>) and named columns
  in the order in which they were added. Assigning a column replaces the column of
  that name or appends a new one. Tables are objects: a variable holds a reference,
  and a function that assigns to a column of its argument changes the caller's
  table. The store maps references to tables.
\<close>

record frame =
  nrows :: nat
  cols :: "(string \<times> column) list"

type_synonym addr = nat
type_synonym store = "addr \<Rightarrow> frame"

definition has_col :: "frame \<Rightarrow> string \<Rightarrow> bool" where
  "has_col df name = (map_of (cols df) name \<noteq> None)"

definition get_col :: "frame \<Rightarrow> string \<Rightarrow> error + column" where
  "get_col df name =
     (case map_of (cols df) name of None \<Rightarrow> Inl (KeyError name) | Some c \<Rightarrow> Inr c)"

definition set_col :: "store \<Rightarrow> addr \<Rightarrow> string \<Rightarrow> column \<Rightarrow> store" where
  "set_col st df name c = st(df := (st df)\<lparr>cols := AList.update name c (cols (st df))\<rparr>)"

definition wf_frame :: "frame \<Rightarrow> bool" where
  "wf_frame df = list_all (\<lambda>(name, c). length c = nrows df) (cols df)"

section \<open>The indicator engine\<close>

text \<open>
  \<^verbatim>\<open>rolling(window, min_periods)\<close>: the window of row \<open>i\<close> holds the rows
  \<open>i - window + 1, \<dots>, i\<close> that exist. Values that are not finite are left out; the
  result is missing when fewer than \<open>min_periods\<close> values remain. The deviation is
  the sample deviation, which also needs two values.
\<close>

definition window_at :: "nat \<Rightarrow> nat \<Rightarrow> column \<Rightarrow> column" where
  "window_at w i xs = drop (Suc i - w) (take (Suc i) xs)"

fun finite_vals :: "column \<Rightarrow> real list" where
  "finite_vals [] = []"
| "finite_vals (Fin r # xs) = r # finite_vals xs"
| "finite_vals (_ # xs) = finite_vals xs"

definition mean_of :: "real list \<Rightarrow> real" where
  "mean_of ys = sum_list ys / real (length ys)"

definition rolling_mean :: "nat \<Rightarrow> nat \<Rightarrow> column \<Rightarrow> column" where
  "rolling_mean w min_periods xs =
     map (\<lambda>i. let ys = finite_vals (window_at w i xs)
              in if min_periods \<le> length ys \<and> ys \<noteq> [] then Fin (mean_of ys) else NaN)
       [0..<length xs]"

definition rolling_std :: "nat \<Rightarrow> nat \<Rightarrow> column \<Rightarrow> column" where
  "rolling_std w min_periods xs =
     map (\<lambda>i. let ys = finite_vals (window_at w i xs)
              in if min_periods \<le> length ys \<and> 1 < length ys
                 then Fin (sqrt (sum_list (map (\<lambda>y. (y - mean_of ys)\<^sup>2) ys)
                                  / real (length ys - 1)))
                 else NaN)
       [0..<length xs]"

text \<open>
  \<^verbatim>\<open>ewm(span, adjust=False).mean()\<close> with \<open>\<alpha> = 2 / (span + 1)\<close>: the first average
  is the first value, and each further value \<open>x\<close> turns the average \<open>y\<close> into
  \<open>(1 - \<alpha>) y + \<alpha> x\<close>. A missing value repeats the average and ages its weight.
\<close>

fun ewm_from :: "real \<Rightarrow> fval \<Rightarrow> real \<Rightarrow> column \<Rightarrow> column" where
  "ewm_from alpha weighted old_wt [] = []"
| "ewm_from alpha weighted old_wt (cur # rest) =
     (if weighted \<noteq> NaN then
        (if cur \<noteq> NaN then
           (let w = (if weighted = cur then weighted
                     else fdiv (fadd (fmul (Fin (old_wt * (1 - alpha))) weighted)
                                     (fmul (Fin alpha) cur))
                               (Fin (old_wt * (1 - alpha) + alpha)))
            in w # ewm_from alpha w 1 rest)
         else weighted # ewm_from alpha weighted (old_wt * (1 - alpha)) rest)
      else (if cur \<noteq> NaN then cur # ewm_from alpha cur old_wt rest
            else NaN # ewm_from alpha weighted old_wt rest))"

definition ewm_mean :: "nat \<Rightarrow> column \<Rightarrow> column" where
  "ewm_mean span_n xs =
     (case xs of [] \<Rightarrow> [] | x # rest \<Rightarrow> x # ewm_from (2 / (real span_n + 1)) x 1 rest)"

text \<open>\<^verbatim>\<open>s.where(cond, other)\<close>: the value where the condition holds, else the other.\<close>

definition where_col :: "(fval \<Rightarrow> bool) \<Rightarrow> fval \<Rightarrow> column \<Rightarrow> column" where
  "where_col cond other xs = map (\<lambda>x. if cond x then x else other) xs"

text \<open>
  \<^verbatim>\<open>IndicatorCalculator\<close> of \<^verbatim>\<open>analysis/indicators.py\<close>. Every function assigns
  its columns to the table it was given and returns that same table.
\<close>

definition add_moving_averages :: "store \<Rightarrow> addr \<Rightarrow> error + (store \<times> addr)" where
  "add_moving_averages st df =
     ebind (get_col (st df) ''close'') (\<lambda>close.
       let st1 = set_col st df ''sma_20'' (rolling_mean 20 1 close);
           st2 = set_col st1 df ''sma_50'' (rolling_mean 50 1 close);
           st3 = set_col st2 df ''ema_12'' (ewm_mean 12 close);
           st4 = set_col st3 df ''ema_26'' (ewm_mean 26 close)
       in Inr (st4, df))"

definition rsi_values :: "nat \<Rightarrow> column \<Rightarrow> column" where
  "rsi_values window close =
     (let delta = diff close;
          gain = where_col (\<lambda>d. fgt d (Fin 0)) (Fin 0) delta;
          loss = map fneg (where_col (\<lambda>d. flt d (Fin 0)) (Fin 0) delta);
          avg_gain = rolling_mean window 1 gain;
          avg_loss = rolling_mean window 1 loss;
          rs = map2 fdiv avg_gain (map (\<lambda>l. fadd l (Fin (1 / 10 ^ 10))) avg_loss)
      in map (\<lambda>r. fsub (Fin 100) (fdiv (Fin 100) (fadd (Fin 1) r))) rs)"

definition add_rsi :: "store \<Rightarrow> addr \<Rightarrow> nat \<Rightarrow> error + (store \<times> addr)" where
  "add_rsi st df window =
     ebind (get_col (st df) ''close'') (\<lambda>close.
       if window < 1 then Inl ValueError
       else Inr (set_col st df (''rsi_'' @ nat_str window) (rsi_values window close), df))"

definition add_bollinger_bands ::
  "store \<Rightarrow> addr \<Rightarrow> nat \<Rightarrow> real \<Rightarrow> error + (store \<times> addr)" where
  "add_bollinger_bands st df window std_dev =
     ebind (get_col (st df) ''close'') (\<lambda>close.
       if window < 1 then Inl ValueError
       else
         let bb_middle = rolling_mean window 1 close;
             st1 = set_col st df ''bb_middle'' bb_middle;
             std = rolling_std window 1 close;
             st2 = set_col st1 df ''bb_upper''
                     (map2 fadd bb_middle (map (\<lambda>s. fmul s (Fin std_dev)) std));
             st3 = set_col st2 df ''bb_lower''
                     (map2 fsub bb_middle (map (\<lambda>s. fmul s (Fin std_dev)) std))
         in Inr (st3, df))"

definition add_macd :: "store \<Rightarrow> addr \<Rightarrow> error + (store \<times> addr)" where
  "add_macd st0 df0 =
     ebind (if \<not> has_col (st0 df0) ''ema_12'' \<or> \<not> has_col (st0 df0) ''ema_26''
            then add_moving_averages st0 df0 else Inr (st0, df0)) (\<lambda>(st, df).
     ebind (get_col (st df) ''ema_12'') (\<lambda>ema_12.
     ebind (get_col (st df) ''ema_26'') (\<lambda>ema_26.
       let macd = map2 fsub ema_12 ema_26;
           st1 = set_col st df ''macd'' macd;
           macd_signal = ewm_mean 9 macd;
           st2 = set_col st1 df ''macd_signal'' macd_signal;
           st3 = set_col st2 df ''macd_hist'' (map2 fsub macd macd_signal)
       in Inr (st3, df))))"

definition calculate_all_indicators :: "store \<Rightarrow> addr \<Rightarrow> error + (store \<times> addr)" where
  "calculate_all_indicators st0 df0 =
     ebind (add_moving_averages st0 df0) (\<lambda>(st1, df1).
     ebind (add_rsi st1 df1 14) (\<lambda>(st2, df2).
     ebind (add_bollinger_bands st2 df2 20 2) (\<lambda>(st3, df3).
     add_macd st3 df3)))"

section \<open>The pattern detectors\<close>

text \<open>
  \<^verbatim>\<open>PatternDetector\<close> of \<^verbatim>\<open>analysis/patterns.py\<close>. The detectors read the
  \<^verbatim>\<open>high\<close>, \<^verbatim>\<open>low\<close> and \<^verbatim>\<open>close\<close> arrays of a bar table, whose prices are
  finite numbers. A marker array starts as \<^verbatim>\<open>np.zeros(len(df))\<close>.
\<close>

record bar =
  opn :: real
  high :: real
  low :: real
  close :: real
  volume :: real

text \<open>
  NumPy on arrays: the slice \<^verbatim>\<open>a[i:j]\<close> for indices that are not negative, the
  reductions \<^verbatim>\<open>max\<close>, \<^verbatim>\<open>min\<close>, \<^verbatim>\<open>argmax\<close> and \<^verbatim>\<open>argmin\<close> (the first
  position of the extreme value), which raise \<^verbatim>\<open>ValueError\<close> on an empty array, and
  the slope of the least-squares line \<^verbatim>\<open>np.polyfit(range(len(y)), y, 1)[0]\<close>, which
  raises \<^verbatim>\<open>TypeError\<close> on an empty array.
\<close>

definition slice :: "'a list \<Rightarrow> nat \<Rightarrow> nat \<Rightarrow> 'a list" where
  "slice xs i j = take (j - i) (drop i xs)"

definition np_max :: "real list \<Rightarrow> error + real" where
  "np_max xs = (case xs of [] \<Rightarrow> Inl ValueError | y # ys \<Rightarrow> Inr (foldl max y ys))"

definition np_min :: "real list \<Rightarrow> error + real" where
  "np_min xs = (case xs of [] \<Rightarrow> Inl ValueError | y # ys \<Rightarrow> Inr (foldl min y ys))"

definition np_argmax :: "real list \<Rightarrow> error + nat" where
  "np_argmax xs =
     (case xs of [] \<Rightarrow> Inl ValueError
      | y # ys \<Rightarrow> Inr (length (takeWhile (\<lambda>x. x \<noteq> foldl max y ys) xs)))"

definition np_argmin :: "real list \<Rightarrow> error + nat" where
  "np_argmin xs =
     (case xs of [] \<Rightarrow> Inl ValueError
      | y # ys \<Rightarrow> Inr (length (takeWhile (\<lambda>x. x \<noteq> foldl min y ys) xs)))"

definition polyfit_slope :: "real list \<Rightarrow> error + real" where
  "polyfit_slope ys =
     (if ys = [] then Inl TypeError
      else let xs = map real [0..<length ys];
               xm = mean_of xs;
               ym = mean_of ys
           in Inr (sum_list (map2 (\<lambda>x y. (x - xm) * (y - ym)) xs ys)
                   / sum_list (map (\<lambda>x. (x - xm)\<^sup>2) xs)))"

text \<open>A \<^verbatim>\<open>for\<close> loop over a list of indices; an exception in the body ends it.\<close>

fun for_loop :: "nat list \<Rightarrow> (nat \<Rightarrow> 's \<Rightarrow> error + 's) \<Rightarrow> 's \<Rightarrow> error + 's" where
  "for_loop [] body s = Inr s"
| "for_loop (i # rest) body s =
     (case body i s of Inl e \<Rightarrow> Inl e | Inr s' \<Rightarrow> for_loop rest body s')"

text \<open>The body of the loop of \<^verbatim>\<open>detect_head_shoulders\<close> (lines 36-56).\<close>

definition head_shoulders_step ::
  "real list \<Rightarrow> real list \<Rightarrow> nat \<Rightarrow> nat \<Rightarrow> real list \<Rightarrow> error + real list" where
  "head_shoulders_step highs lows window i patterns =
     ebind (np_max (slice highs (i - window) i)) (\<lambda>left_high.
     ebind (np_argmax (slice highs (i - window) i)) (\<lambda>left_arg.
     ebind (np_max (slice highs (i - window) (i + window))) (\<lambda>head_high.
     ebind (np_argmax (slice highs (i - window) (i + window))) (\<lambda>head_arg.
     ebind (np_max (slice highs i (i + window))) (\<lambda>right_high.
     ebind (np_argmax (slice highs i (i + window))) (\<lambda>right_arg.
       let left_idx = i - window + left_arg;
           head_idx = i - window + head_arg;
           right_idx = i + right_arg
       in ebind (np_min (slice lows left_idx head_idx)) (\<lambda>neckline_low.
            Inr (if left_high < head_high \<and> right_high < head_high \<and>
                    left_high > neckline_low \<and> right_high > neckline_low \<and>
                    \<bar>left_high - right_high\<bar> < 2 / 100 * head_high \<and>
                    left_idx < head_idx \<and> head_idx < right_idx
                 then patterns[right_idx := - 1] else patterns))))))))"

definition detect_head_shoulders :: "bar list \<Rightarrow> nat \<Rightarrow> error + real list" where
  "detect_head_shoulders df window =
     for_loop [window..<length df - window]
       (head_shoulders_step (map high df) (map low df) window)
       (replicate (length df) 0)"

datatype top_bottom = Top | Bottom

text \<open>The body of the loop of \<^verbatim>\<open>detect_double_top_bottom\<close> (lines 70-92).\<close>

definition double_step ::
  "real list \<Rightarrow> real list \<Rightarrow> top_bottom \<Rightarrow> nat \<Rightarrow> nat \<Rightarrow> real list \<Rightarrow> error + real list" where
  "double_step highs lows pattern_type window i patterns =
     (case pattern_type of
        Top \<Rightarrow>
          ebind (np_max (slice highs (i - window) i)) (\<lambda>peak1.
          ebind (np_argmax (slice highs (i - window) i)) (\<lambda>arg1.
          ebind (np_max (slice highs i (i + window))) (\<lambda>peak2.
          ebind (np_argmax (slice highs i (i + window))) (\<lambda>arg2.
            let peak1_idx = i - window + arg1;
                peak2_idx = i + arg2
            in ebind (np_min (slice lows peak1_idx peak2_idx)) (\<lambda>trough.
                 Inr (if \<bar>peak1 - peak2\<bar> < 2 / 100 * peak1 \<and> trough < peak1 \<and>
                         int peak2_idx - int peak1_idx \<ge> int (window div 2)
                      then patterns[peak2_idx := - 1] else patterns))))))
      | Bottom \<Rightarrow>
          ebind (np_min (slice lows (i - window) i)) (\<lambda>trough1.
          ebind (np_argmin (slice lows (i - window) i)) (\<lambda>arg1.
          ebind (np_min (slice lows i (i + window))) (\<lambda>trough2.
          ebind (np_argmin (slice lows i (i + window))) (\<lambda>arg2.
            let trough1_idx = i - window + arg1;
                trough2_idx = i + arg2
            in ebind (np_max (slice highs trough1_idx trough2_idx)) (\<lambda>peak.
                 Inr (if \<bar>trough1 - trough2\<bar> < 2 / 100 * trough1 \<and> peak > trough1 \<and>
                         int trough2_idx - int trough1_idx \<ge> int (window div 2)
                      then patterns[trough2_idx := 1] else patterns)))))))"

definition detect_double_top_bottom ::
  "bar list \<Rightarrow> top_bottom \<Rightarrow> nat \<Rightarrow> error + real list" where
  "detect_double_top_bottom df pattern_type window =
     for_loop [window..<length df - window]
       (double_step (map high df) (map low df) pattern_type window)
       (replicate (length df) 0)"

datatype triangle = Ascending | Descending | Symmetrical

text \<open>The last five and the first five values of a window: \<^verbatim>\<open>a[-5:]\<close>, \<^verbatim>\<open>a[:5]\<close>.\<close>

definition last5 :: "real list \<Rightarrow> real list" where
  "last5 xs = drop (length xs - 5) xs"

definition first5 :: "real list \<Rightarrow> real list" where
  "first5 xs = take 5 xs"

text \<open>The body of the loop of \<^verbatim>\<open>detect_triangle_patterns\<close> (lines 106-126).\<close>

definition triangle_step ::
  "real list \<Rightarrow> real list \<Rightarrow> real list \<Rightarrow> triangle \<Rightarrow> nat \<Rightarrow> nat \<Rightarrow> real list
     \<Rightarrow> error + real list" where
  "triangle_step highs_all lows_all closes pattern_type window i patterns =
     (let highs = slice highs_all (i - window) (i + window);
          lows = slice lows_all (i - window) (i + window)
      in case pattern_type of
           Ascending \<Rightarrow>
             ebind (np_max highs) (\<lambda>top.
             ebind (polyfit_slope lows) (\<lambda>bottom_slope.
             ebind (np_max (last5 highs)) (\<lambda>late.
             ebind (np_max (first5 highs)) (\<lambda>early.
               Inr (if \<bar>late - early\<bar> < 1 / 100 * top \<and> bottom_slope > 0
                    then patterns[i + window := 1] else patterns)))))
         | Descending \<Rightarrow>
             ebind (np_min lows) (\<lambda>bottom.
             ebind (polyfit_slope highs) (\<lambda>top_slope.
             ebind (np_min (last5 lows)) (\<lambda>late.
             ebind (np_min (first5 lows)) (\<lambda>early.
               Inr (if \<bar>late - early\<bar> < 1 / 100 * bottom \<and> top_slope < 0
                    then patterns[i + window := - 1] else patterns)))))
         | Symmetrical \<Rightarrow>
             ebind (polyfit_slope highs) (\<lambda>high_slope.
             ebind (polyfit_slope lows) (\<lambda>low_slope.
               Inr (if high_slope < 0 \<and> low_slope > 0 \<and>
                       \<bar>last highs - last lows\<bar> < 7 / 10 * \<bar>hd highs - hd lows\<bar>
                    then patterns[i + window :=
                           (if closes ! (i + window) > (last highs + last lows) / 2
                            then 1 else - 1)]
                    else patterns))))"

definition detect_triangle_patterns ::
  "bar list \<Rightarrow> triangle \<Rightarrow> nat \<Rightarrow> error + real list" where
  "detect_triangle_patterns df pattern_type window =
     for_loop [window..<length df - window]
       (triangle_step (map high df) (map low df) (map close df) pattern_type window)
       (replicate (length df) 0)"

section \<open>The signal generator\<close>

text \<open>
  \<^verbatim>\<open>SignalGenerator.generate_signals\<close> of \<^verbatim>\<open>analysis/signals.py\<close>. The signal table
  has the index of the enriched table; its sub-signal columns hold integers and its
  composite score is a finite number.
\<close>

record signal_table =
  signal :: "int list"
  ma_signal :: "int list"
  macd_signal :: "int list"
  rsi_signal :: "int list"
  bb_signal :: "int list"
  pattern_signal :: "int list"
  sr_signal :: "int list"
  composite_score :: "real list"

text \<open>
  \<^verbatim>\<open>signals.loc[mask, c] = v\<close> and \<^verbatim>\<open>signals.loc[mask, c] += v\<close>: the rows where
  the mask holds are set to \<open>v\<close>, or raised by \<open>v\<close>.
\<close>

definition loc_set :: "bool list \<Rightarrow> int \<Rightarrow> int list \<Rightarrow> int list" where
  "loc_set msk v c = map2 (\<lambda>m x. if m then v else x) msk c"

definition loc_add :: "bool list \<Rightarrow> int \<Rightarrow> int list \<Rightarrow> int list" where
  "loc_add msk v c = map2 (\<lambda>m x. if m then x + v else x) msk c"

definition mask_and :: "bool list \<Rightarrow> bool list \<Rightarrow> bool list" where
  "mask_and a b = map2 (\<and>) a b"

text \<open>Lines 36-47: every pattern column that the table has moves the pattern signal.\<close>

definition pattern_pass ::
  "frame \<Rightarrow> fval \<Rightarrow> int \<Rightarrow> string list \<Rightarrow> int list \<Rightarrow> int list" where
  "pattern_pass df marker v names sig =
     foldl (\<lambda>s pattern. case map_of (cols df) pattern of
                          None \<Rightarrow> s
                        | Some c \<Rightarrow> loc_add (map (\<lambda>x. x = marker) c) v s)
       sig names"

definition bullish_patterns :: "string list" where
  "bullish_patterns = [''double_bottom'', ''triangle_asc'', ''triangle_sym'']"

definition bearish_patterns :: "string list" where
  "bearish_patterns = [''double_top'', ''hs_pattern'', ''triangle_desc'']"

text \<open>Lines 54-65: the weights, in the order of the sub-signal columns.\<close>

definition signal_weights :: "(string \<times> real) list" where
  "signal_weights =
     [(''ma_signal'', 2), (''macd_signal'', 3 / 2), (''rsi_signal'', 1),
      (''bb_signal'', 1), (''pattern_signal'', 2), (''sr_signal'', 3 / 2)]"

definition mul_weights :: "int list list \<Rightarrow> real list \<Rightarrow> real list list" where
  "mul_weights columns weights = map2 (\<lambda>c w. map (\<lambda>x. real_of_int x * w) c) columns weights"

definition sum_axis1 :: "nat \<Rightarrow> real list list \<Rightarrow> real list" where
  "sum_axis1 n columns = foldl (map2 (+)) (replicate n 0) columns"

definition generate_signals :: "frame \<Rightarrow> error + signal_table" where
  "generate_signals df =
     ebind (get_col df ''ema_12'') (\<lambda>ema_12.
     ebind (get_col df ''ema_26'') (\<lambda>ema_26.
     ebind (get_col df ''sma_20'') (\<lambda>sma_20.
     ebind (get_col df ''sma_50'') (\<lambda>sma_50.
     ebind (get_col df ''macd'') (\<lambda>macd.
     ebind (get_col df ''macd_signal'') (\<lambda>macd_sig.
     ebind (get_col df ''rsi_14'') (\<lambda>rsi_14.
     ebind (get_col df ''close'') (\<lambda>close_c.
     ebind (get_col df ''bb_lower'') (\<lambda>bb_lower.
     ebind (get_col df ''bb_upper'') (\<lambda>bb_upper.
     ebind (get_col df ''support'') (\<lambda>support.
     ebind (get_col df ''resistance'') (\<lambda>resistance.
       let zeros = replicate (nrows df) 0;
           ma = loc_set (mask_and (map2 flt ema_12 ema_26) (map2 flt sma_20 sma_50)) (- 1)
                  (loc_set (mask_and (map2 fgt ema_12 ema_26) (map2 fgt sma_20 sma_50)) 1
                     zeros);
           macd_s = loc_set (map2 flt macd macd_sig) (- 1)
                      (loc_set (map2 fgt macd macd_sig) 1 zeros);
           rsi_s = loc_set (map (\<lambda>r. fgt r (Fin 70)) rsi_14) (- 1)
                     (loc_set (map (\<lambda>r. flt r (Fin 30)) rsi_14) 1 zeros);
           bb_s = loc_set (map2 fgt close_c bb_upper) (- 1)
                    (loc_set (map2 flt close_c bb_lower) 1 zeros);
           pattern_s = pattern_pass df (Fin (- 1)) (- 1) bearish_patterns
                         (pattern_pass df (Fin 1) 1 bullish_patterns zeros);
           sr_s = loc_set (map2 fge close_c resistance) (- 1)
                    (loc_set (map2 fle close_c support) 1 zeros);
           weighted_signals =
             mul_weights [ma, macd_s, rsi_s, bb_s, pattern_s, sr_s] (map snd signal_weights);
           composite = sum_axis1 (nrows df) weighted_signals;
           final = loc_set (map (\<lambda>c. c \<le> - 3) composite) (- 1)
                     (loc_set (map (\<lambda>c. 3 \<le> c) composite) 1 zeros)
       in Inr \<lparr> signal = final, ma_signal = ma, macd_signal = macd_s,
                 rsi_signal = rsi_s, bb_signal = bb_s, pattern_signal = pattern_s,
                 sr_signal = sr_s, composite_score = composite \<rparr>))))))))))))"

section \<open>Example inputs\<close>

definition two_bars :: "bar list" where
  "two_bars =
     [\<lparr>opn = 10, high = 12, low = 9, close = 11, volume = 1000\<rparr>,
      \<lparr>opn = 11, high = 13, low = 10, close = 12, volume = 1500\<rparr>]"

text \<open>
  Bar tables longer than twice the window: five bars with falling highs (for the
  window 2), and 61 bars whose highs fall slowly while the lows rise (for the default
  window 30).
\<close>

definition falling_bars :: "bar list" where
  "falling_bars =
     map (\<lambda>h. \<lparr>opn = 10, high = h, low = 1, close = 5, volume = 1000\<rparr>) [10, 9, 8, 7, 6]"

definition converging_bars :: "bar list" where
  "converging_bars =
     map (\<lambda>i. \<lparr>opn = 75, high = 100 - real i / 1000, low = 50 + real i / 2, close = 99,
                volume = 1000\<rparr>) [0..<61]"

text \<open>Predicates on values, for stating bounds on columns that may hold missing values.\<close>

fun nonneg_or_missing :: "fval \<Rightarrow> bool" where
  "nonneg_or_missing NaN = True"
| "nonneg_or_missing (Fin r) = (0 \<le> r)"
| "nonneg_or_missing _ = False"

fun positive_or_missing :: "fval \<Rightarrow> bool" where
  "positive_or_missing NaN = True"
| "positive_or_missing (Fin r) = (0 < r)"
| "positive_or_missing _ = False"

text \<open>
  One row of an enriched table on which every rule family is bullish and two bullish
  pattern markers (double bottom, ascending triangle) are set.
\<close>

definition bullish_row :: frame where
  "bullish_row =
     \<lparr>nrows = 1,
      cols = [(''close'', [Fin 100]), (''sma_20'', [Fin 102]), (''sma_50'', [Fin 101]),
              (''ema_12'', [Fin 103]), (''ema_26'', [Fin 102]), (''rsi_14'', [Fin 25]),
              (''bb_middle'', [Fin 104]), (''bb_upper'', [Fin 107]), (''bb_lower'', [Fin 101]),
              (''macd'', [Fin 1]), (''macd_signal'', [Fin (1 / 2)]), (''macd_hist'', [Fin (1 / 2)]),
              (''hs_pattern'', [Fin 0]), (''double_top'', [Fin 0]), (''double_bottom'', [Fin 1]),
              (''triangle_asc'', [Fin 1]), (''triangle_desc'', [Fin 0]), (''triangle_sym'', [Fin 0]),
              (''resistance'', [NaN]), (''support'', [Fin 100])]\<rparr>"

text \<open>
  Stores with one table, at reference 0: a single bar, and a flat series of three
  bars.
\<close>

definition empty_store :: store where
  "empty_store = (\<lambda>_. \<lparr>nrows = 0, cols = []\<rparr>)"

definition one_bar_store :: store where
  "one_bar_store = empty_store(0 := \<lparr>nrows = 1, cols = [(''close'', [Fin 100])]\<rparr>)"

definition flat_store :: store where
  "flat_store = empty_store(0 := \<lparr>nrows = 3, cols = [(''close'', [Fin 5, Fin 5, Fin 5])]\<rparr>)"

section \<open>Properties of the backtester\<close>

subsection \<open>Lengths of the columns\<close>

lemma length_cumsum_from [simp]: "length (cumsum_from a xs) = length xs"
  by (induction xs arbitrary: a) auto

lemma length_cumsum [simp]: "length (cumsum xs) = length xs"
  by (simp add: cumsum_def)

lemma length_cummax_from [simp]: "length (cummax_from a xs) = length xs"
  by (induction xs arbitrary: a) auto

lemma length_shift1 [simp]: "length (shift1 xs) = length xs"
  by (cases xs) (simp_all add: shift1_def)

lemma length_diff [simp]: "length (diff xs) = length xs"
  by (cases xs) (simp_all add: diff_def)

lemma length_reindex [simp]: "length (reindex n xs) = n"
  by (simp add: reindex_def)

lemma length_fillna [simp]: "length (fillna v xs) = length xs"
  by (simp add: fillna_def)

lemma length_ffill_from [simp]: "length (ffill_from a xs) = length xs"
  by (induction xs arbitrary: a) auto

lemma length_pct_change [simp]: "length (pct_change xs) = length xs"
  by (simp add: pct_change_def ffill_def Let_def)

lemma length_bt_position [simp]: "length (bt_position sg) = length sg"
  by (simp add: bt_position_def bt_signal_def)

lemma length_bt_total [simp]: "length (bt_total cl sg cap com) = length sg"
  by (simp add: bt_total_def bt_cash_def bt_holdings_def bt_close_def)

lemma length_bt_returns [simp]: "length (bt_returns xs) = length xs"
  by (simp add: bt_returns_def)

lemma length_bt_trades [simp]: "length (bt_trades sg) = length sg"
  by (simp add: bt_trades_def)

subsection \<open>A run on a non-empty index returns its report\<close>

lemma success_rate_ok:
  "length cl = n \<Longrightarrow> set rows \<subseteq> {0..<n} \<Longrightarrow> \<exists>r. success_rate cmp cl rows = Inr r"
  by (auto simp: success_rate_def list_ex_iff Let_def)

lemma trade_rows_bound: "set (trade_rows sel tr) \<subseteq> {0..<length tr}"
  by (auto simp: trade_rows_def)

lemma run_backtest_ok:
  assumes "sg \<noteq> []" and "length cl = length sg"
  shows "\<exists>p. run_backtest cl sg cap com = Inr p \<and>
             positions p = bt_position sg \<and>
             total_col (portfolio p) = bt_total cl sg cap com \<and>
             cash (portfolio p) = bt_cash cl sg cap com \<and>
             returns (portfolio p) = bt_returns (bt_total cl sg cap com) \<and>
             sharpe_ratio p = bt_sharpe (bt_returns (bt_total cl sg cap com)) \<and>
             max_drawdown_pct p = fmul (bt_max_drawdown (bt_total cl sg cap com)) (Fin 100)"
proof -
  have tot: "bt_total cl sg cap com \<noteq> []"
    using assms(1) length_bt_total[of cl sg cap com] by (metis length_0_conv)
  obtain b where b: "success_rate fgt cl (trade_rows (\<lambda>x. fgt x (Fin 0)) (bt_trades sg)) = Inr b"
    using success_rate_ok[OF assms(2), of "trade_rows (\<lambda>x. fgt x (Fin 0)) (bt_trades sg)" fgt]
      trade_rows_bound[of "\<lambda>x. fgt x (Fin 0)" "bt_trades sg"] by auto
  obtain c where c: "success_rate flt cl (trade_rows (\<lambda>x. flt x (Fin 0)) (bt_trades sg)) = Inr c"
    using success_rate_ok[OF assms(2), of "trade_rows (\<lambda>x. flt x (Fin 0)) (bt_trades sg)" flt]
      trade_rows_bound[of "\<lambda>x. flt x (Fin 0)" "bt_trades sg"] by auto
  show ?thesis
    using tot b c by (simp add: run_backtest_def Let_def ebind_def)
qed

subsection \<open>No look-ahead in the position\<close>

lemma take_cumsum_from: "take k (cumsum_from a xs) = cumsum_from a (take k xs)"
proof (induction xs arbitrary: a k)
  case Nil
  then show ?case by simp
next
  case (Cons x xs)
  then show ?case by (cases k) auto
qed

lemma take_shift1_update:
  "take (Suc t) (shift1 (xs[t := v])) = take (Suc t) (shift1 xs)"
proof (cases "xs = []")
  case True
  then show ?thesis by simp
next
  case False
  have "take t (butlast (xs[t := v])) = take t (butlast xs)"
    by (simp add: butlast_conv_take take_update_cancel min_def)
  with False show ?thesis by (simp add: shift1_def)
qed

lemma take_bt_position_update:
  "take (Suc t) (bt_position (sg[t := s])) = take (Suc t) (bt_position sg)"
  unfolding bt_position_def bt_signal_def cumsum_def
  by (simp add: take_cumsum_from map_update take_shift1_update)

text \<open>
  C2. Take a run on a non-empty index and a second run that differs from it only in
  the close and in the decision of row \<open>t\<close>. Both runs return a report, and their
  position columns agree on the rows \<open>0, \<dots>, t\<close>: the position of a row depends only
  on the decisions of the rows strictly before it.
\<close>

theorem position_no_lookahead:
  assumes "signals_signal \<noteq> []" and "length data_close = length signals_signal"
  shows "\<exists>p p'. run_backtest data_close signals_signal capital commission = Inr p \<and>
           run_backtest (data_close[t := c]) (signals_signal[t := s]) capital commission
             = Inr p' \<and>
           take (Suc t) (positions p') = take (Suc t) (positions p)"
proof -
  obtain p where p: "run_backtest data_close signals_signal capital commission = Inr p"
      "positions p = bt_position signals_signal"
    using run_backtest_ok[OF assms] by blast
  have "signals_signal[t := s] \<noteq> []"
    and "length (data_close[t := c]) = length (signals_signal[t := s])"
    using assms by simp_all
  from run_backtest_ok[OF this]
  obtain p' where p':
      "run_backtest (data_close[t := c]) (signals_signal[t := s]) capital commission = Inr p'"
      "positions p' = bt_position (signals_signal[t := s])"
    by blast
  show ?thesis using p p' by (simp add: take_bt_position_update)
qed

theorem position_no_lookahead_witness:
  "\<exists>p p'. run_backtest [100, 101, 102] [0, 1, 0] 10000 (1 / 1000) = Inr p \<and>
     run_backtest ([100, 101, 102][1 := 500]) ([0, 1, 0][1 := - 1]) 10000 (1 / 1000) = Inr p' \<and>
     take (Suc 1) (positions p') = take (Suc 1) (positions p)"
  by (rule position_no_lookahead) simp_all

subsection \<open>Reading a report\<close>

lemma run_backtest_report:
  assumes "run_backtest cl sg cap com = Inr p"
  shows "max_drawdown_pct p = fmul (bt_max_drawdown (total_col (portfolio p))) (Fin 100)"
    and "sharpe_ratio p = bt_sharpe (returns (portfolio p))"
    and "total_col (portfolio p) = bt_total cl sg cap com"
    and "positions p = bt_position sg"
  using assms
  by (auto simp: run_backtest_def Let_def ebind_def split: if_splits sum.splits)

text \<open>Evaluation of the columns on concrete inputs.\<close>

lemmas bt_eval = bt_total_def bt_cash_def bt_holdings_def bt_close_def bt_position_def
  bt_signal_def reindex_def shift1_def cumsum_def diff_def fsub_def upt_rec

subsection \<open>The cash column\<close>

lemma cash_example:
  "bt_cash [100, 100, 100] [1, 0, 0] 10000 (1 / 1000) = [NaN, NaN, Fin 10000]"
  by (simp add: bt_eval)

lemma total_example:
  "bt_total [100, 100, 100] [1, 0, 0] 10000 (1 / 1000) = [NaN, NaN, Fin 10100]"
  by (simp add: bt_eval)

lemma position_example: "bt_position [1, 0, 0] = [NaN, Fin 1, Fin 1]"
  by (simp add: bt_eval)

text \<open>
  C3. Three bars at 100, a buy decision on the first: the position is 1 from the
  second row on, but the cash column is missing in the first two rows and is still
  the whole initial capital in the third, where the total value is 10100. The shifted decision column starts with a
  missing value that is never filled, so the change of position is missing in rows 0
  and 1 and the first trade is never charged.
\<close>

theorem cash_missing_at_first_rows:
  "map_sum id (\<lambda>p. (positions p, cash (portfolio p), total_col (portfolio p)))
     (run_backtest [100, 100, 100] [1, 0, 0] 10000 (1 / 1000))
     = Inr ([NaN, Fin 1, Fin 1], [NaN, NaN, Fin 10000], [NaN, NaN, Fin 10100])"
proof -
  obtain p where p: "run_backtest [100, 100, 100] [1, 0, 0] 10000 (1 / 1000) = Inr p"
    using run_backtest_ok[of "[1, 0, 0]" "[100, 100, 100]"] by auto
  note r = run_backtest_ok[of "[1, 0, 0]" "[100, 100, 100]" 10000 "1 / 1000"]
  from r p have "positions p = bt_position [1, 0, 0]"
    and "cash (portfolio p) = bt_cash [100, 100, 100] [1, 0, 0] 10000 (1 / 1000)"
    and "total_col (portfolio p) = bt_total [100, 100, 100] [1, 0, 0] 10000 (1 / 1000)"
    by auto
  with p show ?thesis by (simp add: cash_example total_example position_example)
qed

subsection \<open>The maximum drawdown\<close>

lemma nonneg_or_missing_iff:
  "nonneg_or_missing v \<longleftrightarrow> v = NaN \<or> (\<exists>r. v = Fin r \<and> 0 \<le> r)"
  by (cases v) auto

lemma positive_or_missing_iff:
  "positive_or_missing v \<longleftrightarrow> v = NaN \<or> (\<exists>r. v = Fin r \<and> 0 < r)"
  by (cases v) auto

lemma drawdown_in_unit:
  assumes "\<forall>x \<in> set xs. x = NaN \<or> (\<exists>r. x = Fin r \<and> 0 \<le> r)"
    and "\<forall>m \<in> set (cummax_from acc xs). m = NaN \<or> (\<exists>r. m = Fin r \<and> 0 < r)"
    and "acc = NInf \<or> (\<exists>a. acc = Fin a)"
  shows "\<forall>d \<in> set (map2 fdiv (map2 fsub (cummax_from acc xs) xs) (cummax_from acc xs)).
           d = NaN \<or> (\<exists>r. d = Fin r \<and> 0 \<le> r \<and> r \<le> 1)"
  using assms
proof (induction xs arbitrary: acc)
  case Nil
  then show ?case by simp
next
  case (Cons x xs)
  show ?case
  proof (cases "x = NaN")
    case True
    with Cons.prems have "\<forall>d \<in> set (map2 fdiv (map2 fsub (cummax_from acc xs) xs) (cummax_from acc xs)).
           d = NaN \<or> (\<exists>r. d = Fin r \<and> 0 \<le> r \<and> r \<le> 1)"
      by (intro Cons.IH) auto
    with True show ?thesis by (simp add: fsub_def)
  next
    case False
    with Cons.prems(1) obtain r where x: "x = Fin r" and r: "0 \<le> r" by auto
    from Cons.prems(3) have "\<exists>m. fmax acc (Fin r) = Fin m \<and> r \<le> m"
      by (auto simp: fmax_def)
    then obtain m where m: "fmax acc (Fin r) = Fin m" and mr: "r \<le> m" by blast
    from Cons.prems(2) False m have mpos: "0 < m" by (auto simp: x)
    have tl: "\<forall>d \<in> set (map2 fdiv (map2 fsub (cummax_from (fmax acc x) xs) xs) (cummax_from (fmax acc x) xs)).
           d = NaN \<or> (\<exists>r. d = Fin r \<and> 0 \<le> r \<and> r \<le> 1)"
      using Cons.prems False m by (intro Cons.IH) (auto simp: x)
    have hd: "0 \<le> (m - r) / m \<and> (m - r) / m \<le> 1"
      using r mr mpos by (simp add: field_simps)
    from tl hd False show ?thesis
      using mpos by (simp add: x m fsub_def)
  qed
qed

lemma drawdown_defined:
  assumes "\<forall>x \<in> set xs. x = NaN \<or> (\<exists>r. x = Fin r)"
    and "acc = NInf \<or> (\<exists>a. acc = Fin a)"
    and "\<exists>x \<in> set xs. x \<noteq> NaN"
    and "\<forall>m \<in> set (cummax_from acc xs). m = NaN \<or> (\<exists>r. m = Fin r \<and> 0 < r)"
  shows "\<exists>d \<in> set (map2 fdiv (map2 fsub (cummax_from acc xs) xs) (cummax_from acc xs)). d \<noteq> NaN"
  using assms
proof (induction xs arbitrary: acc)
  case Nil
  then show ?case by simp
next
  case (Cons x xs)
  show ?case
  proof (cases "x = NaN")
    case True
    with Cons.prems have "\<exists>d \<in> set (map2 fdiv (map2 fsub (cummax_from acc xs) xs) (cummax_from acc xs)). d \<noteq> NaN"
      by (intro Cons.IH) auto
    with True show ?thesis by simp
  next
    case False
    with Cons.prems(1) obtain r where x: "x = Fin r" by auto
    from Cons.prems(2) have "\<exists>m. fmax acc (Fin r) = Fin m"
      by (auto simp: fmax_def)
    then obtain m where m: "fmax acc (Fin r) = Fin m" by blast
    from Cons.prems(4) False m have mpos: "0 < m" by (auto simp: x)
    then show ?thesis using False by (simp add: x m fsub_def)
  qed
qed

lemma foldl_fmax_unit:
  assumes "\<exists>r. y = Fin r \<and> 0 \<le> r \<and> r \<le> 1"
    and "\<forall>d \<in> set ys. \<exists>r. d = Fin r \<and> 0 \<le> r \<and> r \<le> 1"
  shows "\<exists>r. foldl fmax y ys = Fin r \<and> 0 \<le> r \<and> r \<le> 1"
  using assms
proof (induction ys arbitrary: y)
  case Nil
  then show ?case by simp
next
  case (Cons d ys)
  have "\<exists>r. fmax y d = Fin r \<and> 0 \<le> r \<and> r \<le> 1"
    using Cons.prems by (auto simp: fmax_def)
  then show ?case using Cons.prems(2) by (simp add: Cons.IH)
qed

lemma pd_max_unit:
  assumes "\<forall>d \<in> set ds. d = NaN \<or> (\<exists>r. d = Fin r \<and> 0 \<le> r \<and> r \<le> 1)"
    and "\<exists>d \<in> set ds. d \<noteq> NaN"
  shows "\<exists>r. pd_max ds = Fin r \<and> 0 \<le> r \<and> r \<le> 1"
proof -
  from assms(2) obtain y ys where ne: "dropna ds = y # ys"
    by (cases "dropna ds") (auto simp: dropna_def filter_empty_conv)
  have "\<forall>d \<in> set (dropna ds). \<exists>r. d = Fin r \<and> 0 \<le> r \<and> r \<le> 1"
    using assms(1) by (auto simp: dropna_def)
  with ne have "\<exists>r. y = Fin r \<and> 0 \<le> r \<and> r \<le> 1"
    and "\<forall>d \<in> set ys. \<exists>r. d = Fin r \<and> 0 \<le> r \<and> r \<le> 1" by auto
  from foldl_fmax_unit[OF this] show ?thesis by (simp add: pd_max_def ne)
qed

text \<open>A short position and a price that rises: the total value falls below zero.\<close>

lemma total_short_example:
  "bt_total [100, 100, 100, 30000] [0, - 1, 0, 0] 10000 (1 / 1000) =
     [NaN, NaN, Fin (100001 / 10), Fin (- (198999 / 10))]"
  by (simp add: bt_eval)

lemma drawdown_short_example:
  "bt_max_drawdown [NaN, NaN, Fin (100001 / 10), Fin (- (198999 / 10))] = Fin (299000 / 100001)"
  by (simp add: bt_max_drawdown_def bt_drawdown_def cummax_def pd_max_def dropna_def fmax_def
      fsub_def)

lemma trades_short_example: "bt_trades [0, - 1, 0, 0] = [Fin 0, Fin 0, Fin (- 1), Fin 0]"
  by (simp add: bt_trades_def bt_position_def bt_signal_def shift1_def cumsum_def diff_def
      fsub_def fillna_def)

lemma trade_rows_short_example:
  "trade_rows (\<lambda>x. fgt x (Fin 0)) [Fin 0, Fin 0, Fin (- 1), Fin 0] = []"
  "trade_rows (\<lambda>x. flt x (Fin 0)) [Fin 0, Fin 0, Fin (- 1), Fin 0] = [2]"
  by (simp_all add: trade_rows_def fgt_def upt_rec)

text \<open>
  C7, as stated, fails: with a capital of 10000, one unit sold short at 100 and a
  close of 30000 two rows later, the total value falls from 10000.1 to -19899.9 and
  the maximum drawdown is 299000/100001, almost 3 (reported as 299 percent).
\<close>

theorem max_drawdown_above_one:
  "map_sum id max_drawdown_pct
     (run_backtest [100, 100, 100, 30000] [0, - 1, 0, 0] 10000 (1 / 1000))
     = Inr (Fin (29900000 / 100001)) \<and>
   bt_max_drawdown (bt_total [100, 100, 100, 30000] [0, - 1, 0, 0] 10000 (1 / 1000))
     = Fin (299000 / 100001) \<and>
   (1 :: real) < 299000 / 100001"
  by (simp add: run_backtest_def Let_def total_short_example trades_short_example
      trade_rows_short_example drawdown_short_example success_rate_def ebind_def shift_up5_def)

text \<open>
  C7, amended. In a run whose total value is defined in some row, is never negative
  where it is defined, and whose running maximum is positive where it is defined,
  the reported maximum drawdown is a number between 0 and 1 (between 0 and 100
  percent).
\<close>

theorem max_drawdown_in_unit_interval:
  assumes "run_backtest data_close signals_signal capital commission = Inr p"
    and "list_ex (\<lambda>v. v \<noteq> NaN) (total_col (portfolio p))"
    and "list_all nonneg_or_missing (total_col (portfolio p))"
    and "list_all positive_or_missing (cummax (total_col (portfolio p)))"
  shows "\<exists>d. max_drawdown_pct p = Fin (d * 100) \<and> 0 \<le> d \<and> d \<le> 1"
proof -
  let ?tot = "total_col (portfolio p)"
  have some: "\<exists>v \<in> set ?tot. v \<noteq> NaN"
    using assms(2) by (simp add: list_ex_iff)
  have nonneg: "\<forall>v \<in> set ?tot. v = NaN \<or> (\<exists>r. v = Fin r \<and> 0 \<le> r)"
    using assms(3) by (simp add: list_all_iff nonneg_or_missing_iff)
  have pos: "\<forall>m \<in> set (cummax_from NInf ?tot). m = NaN \<or> (\<exists>r. m = Fin r \<and> 0 < r)"
    using assms(4) by (simp add: list_all_iff positive_or_missing_iff cummax_def)
  have fin: "\<forall>x \<in> set ?tot. x = NaN \<or> (\<exists>r. x = Fin r)" using nonneg by blast
  have a: "\<forall>d \<in> set (bt_drawdown ?tot). d = NaN \<or> (\<exists>r. d = Fin r \<and> 0 \<le> r \<and> r \<le> 1)"
    unfolding bt_drawdown_def Let_def cummax_def
    by (rule drawdown_in_unit) (use nonneg pos in simp_all)
  have b: "\<exists>d \<in> set (bt_drawdown ?tot). d \<noteq> NaN"
    unfolding bt_drawdown_def Let_def cummax_def
    by (rule drawdown_defined) (use fin some pos in simp_all)
  from pd_max_unit[OF a b] obtain d where "bt_max_drawdown ?tot = Fin d" "0 \<le> d" "d \<le> 1"
    by (auto simp: bt_max_drawdown_def)
  with run_backtest_report(1)[OF assms(1)] show ?thesis by auto
qed

lemma total_falling_example:
  "bt_total [100, 100, 100, 90] [0, 1, 0, 0] 10000 (1 / 1000) =
     [NaN, NaN, Fin (99999 / 10), Fin (99899 / 10)]"
  by (simp add: bt_eval)

theorem max_drawdown_in_unit_interval_witness:
  "\<exists>p d. run_backtest [100, 100, 100, 90] [0, 1, 0, 0] 10000 (1 / 1000) = Inr p \<and>
          max_drawdown_pct p = Fin (d * 100) \<and> 0 \<le> d \<and> d \<le> 1"
proof -
  obtain p where p: "run_backtest [100, 100, 100, 90] [0, 1, 0, 0] 10000 (1 / 1000) = Inr p"
    using run_backtest_ok[of "[0, 1, 0, 0]" "[100, 100, 100, 90]"] by auto
  have tot: "total_col (portfolio p) = [NaN, NaN, Fin (99999 / 10), Fin (99899 / 10)]"
    using run_backtest_report(3)[OF p] by (simp add: total_falling_example)
  have "\<exists>d. max_drawdown_pct p = Fin (d * 100) \<and> 0 \<le> d \<and> d \<le> 1"
    by (rule max_drawdown_in_unit_interval[OF p]) (simp_all add: tot cummax_def fmax_def)
  with p show ?thesis by blast
qed

subsection \<open>The Sharpe ratio\<close>

text \<open>
  C8. A run on a non-empty index returns a report without raising. Its Sharpe ratio
  is the mean of the returns divided by their sample deviation, times the square
  root of 252, when there are at least two returns and the deviation is not zero;
  in every other case, and so for a single bar, it is exactly 0.
\<close>

theorem sharpe_ratio_guarded:
  assumes "signals_signal \<noteq> []" and "length data_close = length signals_signal"
  shows "\<exists>p. run_backtest data_close signals_signal capital commission = Inr p \<and>
           length (returns (portfolio p)) = length signals_signal \<and>
           sharpe_ratio p =
             (if 2 \<le> length (returns (portfolio p)) \<and> pd_std (returns (portfolio p)) \<noteq> Fin 0
              then fmul (fdiv (pd_mean (returns (portfolio p))) (pd_std (returns (portfolio p))))
                     (Fin (sqrt 252))
              else Fin 0) \<and>
           (length signals_signal = 1 \<longrightarrow> sharpe_ratio p = Fin 0)"
proof -
  from run_backtest_ok[OF assms]
  obtain p where p: "run_backtest data_close signals_signal capital commission = Inr p"
    by blast
  note r = run_backtest_report[OF p]
  have len: "length (returns (portfolio p)) = length signals_signal"
    using p by (auto simp: run_backtest_def Let_def ebind_def split: if_splits sum.splits)
  have sh: "sharpe_ratio p =
             (if 2 \<le> length (returns (portfolio p)) \<and> pd_std (returns (portfolio p)) \<noteq> Fin 0
              then fmul (fdiv (pd_mean (returns (portfolio p))) (pd_std (returns (portfolio p))))
                     (Fin (sqrt 252))
              else Fin 0)"
    unfolding r(2) bt_sharpe_def by (simp add: Suc_le_eq numeral_2_eq_2)
  have one: "length signals_signal = 1 \<longrightarrow> sharpe_ratio p = Fin 0"
    unfolding sh len by simp
  from p len sh one show ?thesis by blast
qed

theorem sharpe_ratio_guarded_witness:
  "\<exists>p. run_backtest [100] [1] 10000 (1 / 1000) = Inr p \<and> sharpe_ratio p = Fin 0"
  using sharpe_ratio_guarded[of "[1]" "[100]" 10000 "1 / 1000"] by auto

section \<open>Properties of the indicator engine\<close>

subsection \<open>The engine on a single bar\<close>

lemma ma_one_bar:
  "add_moving_averages one_bar_store 0 =
     Inr (one_bar_store(0 := \<lparr>nrows = 1, cols = [(''close'', [Fin 100]), (''sma_20'', [Fin 100]),
        (''sma_50'', [Fin 100]), (''ema_12'', [Fin 100]), (''ema_26'', [Fin 100])]\<rparr>), 0)"
  by (simp add: add_moving_averages_def one_bar_store_def get_col_def ebind_def set_col_def
      rolling_mean_def window_at_def mean_of_def ewm_mean_def Let_def)

lemma rsi_one_bar:
  "add_rsi (one_bar_store(0 := \<lparr>nrows = 1, cols = [(''close'', [Fin 100]), (''sma_20'', [Fin 100]),
        (''sma_50'', [Fin 100]), (''ema_12'', [Fin 100]), (''ema_26'', [Fin 100])]\<rparr>)) 0 14 =
     Inr (one_bar_store(0 := \<lparr>nrows = 1, cols = [(''close'', [Fin 100]), (''sma_20'', [Fin 100]),
        (''sma_50'', [Fin 100]), (''ema_12'', [Fin 100]), (''ema_26'', [Fin 100]),
        (''rsi_14'', [Fin 0])]\<rparr>), 0)"
  by (simp add: add_rsi_def get_col_def ebind_def set_col_def rsi_values_def diff_def where_col_def
      rolling_mean_def window_at_def mean_of_def Let_def fsub_def fgt_def)

lemma bb_one_bar:
  "add_bollinger_bands (one_bar_store(0 := \<lparr>nrows = 1, cols = [(''close'', [Fin 100]), (''sma_20'', [Fin 100]),
        (''sma_50'', [Fin 100]), (''ema_12'', [Fin 100]), (''ema_26'', [Fin 100]),
        (''rsi_14'', [Fin 0])]\<rparr>)) 0 20 2 =
     Inr (one_bar_store(0 := \<lparr>nrows = 1, cols = [(''close'', [Fin 100]), (''sma_20'', [Fin 100]),
        (''sma_50'', [Fin 100]), (''ema_12'', [Fin 100]), (''ema_26'', [Fin 100]),
        (''rsi_14'', [Fin 0]), (''bb_middle'', [Fin 100]), (''bb_upper'', [NaN]),
        (''bb_lower'', [NaN])]\<rparr>), 0)"
  by (simp add: add_bollinger_bands_def get_col_def ebind_def set_col_def
      rolling_mean_def rolling_std_def window_at_def mean_of_def Let_def fsub_def)

lemma macd_one_bar:
  "add_macd (one_bar_store(0 := \<lparr>nrows = 1, cols = [(''close'', [Fin 100]), (''sma_20'', [Fin 100]),
        (''sma_50'', [Fin 100]), (''ema_12'', [Fin 100]), (''ema_26'', [Fin 100]),
        (''rsi_14'', [Fin 0]), (''bb_middle'', [Fin 100]), (''bb_upper'', [NaN]),
        (''bb_lower'', [NaN])]\<rparr>)) 0 =
     Inr (one_bar_store(0 := \<lparr>nrows = 1, cols = [(''close'', [Fin 100]), (''sma_20'', [Fin 100]),
        (''sma_50'', [Fin 100]), (''ema_12'', [Fin 100]), (''ema_26'', [Fin 100]),
        (''rsi_14'', [Fin 0]), (''bb_middle'', [Fin 100]), (''bb_upper'', [NaN]),
        (''bb_lower'', [NaN]), (''macd'', [Fin 0]), (''macd_signal'', [Fin 0]),
        (''macd_hist'', [Fin 0])]\<rparr>), 0)"
  by (simp add: add_macd_def has_col_def get_col_def ebind_def set_col_def ewm_mean_def Let_def fsub_def)

lemma indicators_one_bar:
  "calculate_all_indicators one_bar_store 0 =
     Inr (one_bar_store(0 := \<lparr>nrows = 1, cols = [(''close'', [Fin 100]), (''sma_20'', [Fin 100]),
        (''sma_50'', [Fin 100]), (''ema_12'', [Fin 100]), (''ema_26'', [Fin 100]),
        (''rsi_14'', [Fin 0]), (''bb_middle'', [Fin 100]), (''bb_upper'', [NaN]),
        (''bb_lower'', [NaN]), (''macd'', [Fin 0]), (''macd_signal'', [Fin 0]),
        (''macd_hist'', [Fin 0])]\<rparr>), 0)"
  by (simp only: calculate_all_indicators_def ebind_def ma_one_bar rsi_one_bar bb_one_bar
      macd_one_bar sum.case prod.case)

text \<open>
  C5. On a table of one bar the engine fills every indicator column, but the upper
  and the lower Bollinger band are missing in the first row: the rolling sample
  deviation of a single value is NaN, whatever the minimum period.
\<close>

theorem bollinger_missing_at_first_row:
  "ebind (calculate_all_indicators one_bar_store 0) (\<lambda>(st, df). get_col (st df) ''bb_upper'')
     = Inr [NaN] \<and>
   ebind (calculate_all_indicators one_bar_store 0) (\<lambda>(st, df). get_col (st df) ''bb_lower'')
     = Inr [NaN]"
  by (simp add: indicators_one_bar ebind_def get_col_def)

text \<open>
  C9. The engine returns the reference it was given, and the table behind that
  reference has twelve columns after the call where it had one before: the input
  table is changed in place.
\<close>

theorem indicators_change_their_input:
  "map fst (cols (one_bar_store 0)) = [''close''] \<and>
   map_sum id (\<lambda>(st, df). (df, map fst (cols (st 0)))) (calculate_all_indicators one_bar_store 0)
     = Inr (0, [''close'', ''sma_20'', ''sma_50'', ''ema_12'', ''ema_26'', ''rsi_14'',
                ''bb_middle'', ''bb_upper'', ''bb_lower'', ''macd'', ''macd_signal'',
                ''macd_hist''])"
  by (simp add: indicators_one_bar) (simp add: one_bar_store_def)

subsection \<open>The RSI of a flat series\<close>

lemma map_const_on:
  "(\<And>x. x \<in> set xs \<Longrightarrow> f x = k) \<Longrightarrow> map f xs = replicate (length xs) k"
  by (induction xs) simp_all

lemma diff_flat_values:
  assumes "x \<in> set (diff (replicate n (Fin c)))"
  shows "x = NaN \<or> x = Fin 0"
proof (cases "x = NaN")
  case True
  then show ?thesis by simp
next
  case False
  let ?xs = "replicate n (Fin c)"
  from assms False obtain a b where "(a, b) \<in> set (zip (tl ?xs) (butlast ?xs))"
    and x: "x = fsub a b"
    by (auto simp: diff_def split: if_splits)
  then have "a \<in> set (tl ?xs)" and "b \<in> set (butlast ?xs)"
    by (auto dest: set_zip_leftD set_zip_rightD)
  then have "a \<in> set ?xs" and "b \<in> set ?xs"
    by (auto dest: in_set_butlastD list.set_sel(2)[rotated])
  then have "a = Fin c" and "b = Fin c" by simp_all
  with x show ?thesis by (simp add: fsub_def)
qed

lemma gain_flat:
  "where_col (\<lambda>d. fgt d (Fin 0)) (Fin 0) (diff (replicate n (Fin c))) = replicate n (Fin 0)"
proof -
  have "map (\<lambda>x. if fgt x (Fin 0) then x else Fin 0) (diff (replicate n (Fin c)))
          = replicate (length (diff (replicate n (Fin c)))) (Fin 0)"
    by (rule map_const_on) (auto dest!: diff_flat_values simp: fgt_def)
  then show ?thesis by (simp add: where_col_def)
qed

lemma loss_flat:
  "map fneg (where_col (\<lambda>d. flt d (Fin 0)) (Fin 0) (diff (replicate n (Fin c))))
     = replicate n (Fin 0)"
proof -
  have "map (\<lambda>x. fneg (if flt x (Fin 0) then x else Fin 0)) (diff (replicate n (Fin c)))
          = replicate (length (diff (replicate n (Fin c)))) (Fin 0)"
    by (rule map_const_on) (auto dest!: diff_flat_values)
  then show ?thesis by (simp add: where_col_def comp_def)
qed

lemma finite_vals_zero:
  "\<forall>x \<in> set xs. x = Fin 0 \<Longrightarrow> finite_vals xs = replicate (length xs) 0"
  by (induction xs) auto

lemma window_at_zero:
  assumes "i < n" and "0 < w"
  shows "finite_vals (window_at w i (replicate n (Fin 0)))
           = replicate (length (window_at w i (replicate n (Fin 0)))) 0"
    and "0 < length (window_at w i (replicate n (Fin 0)))"
proof -
  have "\<forall>x \<in> set (window_at w i (replicate n (Fin 0))). x = Fin 0"
    unfolding window_at_def by (auto dest!: in_set_dropD in_set_takeD)
  then show "finite_vals (window_at w i (replicate n (Fin 0)))
           = replicate (length (window_at w i (replicate n (Fin 0)))) 0"
    by (rule finite_vals_zero)
  show "0 < length (window_at w i (replicate n (Fin 0)))"
    using assms by (simp add: window_at_def min_def)
qed

lemma rolling_mean_zero:
  assumes "0 < w"
  shows "rolling_mean w (Suc 0) (replicate n (Fin 0)) = replicate n (Fin 0)"
proof -
  have "map (\<lambda>i. let ys = finite_vals (window_at w i (replicate n (Fin 0)))
                 in if Suc 0 \<le> length ys \<and> ys \<noteq> [] then Fin (mean_of ys) else NaN) [0..<n]
          = replicate (length [0..<n]) (Fin 0)"
  proof (rule map_const_on)
    fix i assume "i \<in> set [0..<n]"
    then have i: "i < n" by simp
    note z = window_at_zero[OF i assms]
    show "(let ys = finite_vals (window_at w i (replicate n (Fin 0)))
           in if Suc 0 \<le> length ys \<and> ys \<noteq> [] then Fin (mean_of ys) else NaN) = Fin 0"
      using z(2) by (simp add: z(1) Let_def mean_of_def Suc_le_eq sum_list_replicate)
  qed
  then show ?thesis by (simp add: rolling_mean_def)
qed

lemma rsi_values_flat:
  assumes "0 < w"
  shows "rsi_values w (replicate n (Fin c)) = replicate n (Fin 0)"
proof -
  have "rsi_values w (replicate n (Fin c)) =
          map (\<lambda>r. fsub (Fin 100) (fdiv (Fin 100) (fadd (Fin 1) r)))
            (map2 fdiv (replicate n (Fin 0))
               (map (\<lambda>l. fadd l (Fin (1 / 10 ^ 10))) (replicate n (Fin 0))))"
    unfolding rsi_values_def Let_def gain_flat loss_flat One_nat_def rolling_mean_zero[OF assms]
    by (rule refl)
  also have "\<dots> = replicate n (Fin 0)"
    by (simp add: zip_replicate fsub_def)
  finally show ?thesis .
qed

lemma get_col_set_col:
  "get_col (set_col st df name c df) name = Inr c"
  by (simp add: get_col_def set_col_def update_conv')

lemma rsi_flat_example: "rsi_values 14 [Fin 5, Fin 5, Fin 5] = [Fin 0, Fin 0, Fin 0]"
  using rsi_values_flat[of 14 3 5] by (simp add: numeral_3_eq_3)

text \<open>
  C6, as stated, fails in its last part: on three bars with the close 5 the RSI
  column is 0 in every row, not 50.
\<close>

theorem rsi_flat_not_fifty:
  "ebind (add_rsi flat_store 0 14) (\<lambda>(st, df). get_col (st df) ''rsi_14'') = Inr [Fin 0, Fin 0, Fin 0] \<and>
   Fin 0 \<noteq> Fin 50"
  by (simp add: add_rsi_def ebind_def flat_store_def get_col_def set_col_def rsi_flat_example)

text \<open>
  C6, amended. On a flat series (every close the same finite price) the RSI
  computation raises no exception and yields no NaN, and the RSI is 0 in every row:
  gains and losses are all 0, so the relative strength is 0 / (0 + 1e-10) = 0 and the
  index is 100 - 100 / (1 + 0) = 0.
\<close>

theorem rsi_flat_is_zero:
  assumes "get_col (st df) ''close'' = Inr (replicate n (Fin c))"
  shows "\<exists>st'. add_rsi st df 14 = Inr (st', df) \<and>
           get_col (st' df) ''rsi_14'' = Inr (replicate n (Fin 0))"
  using assms
  by (simp add: add_rsi_def ebind_def rsi_values_flat get_col_set_col)

theorem rsi_flat_is_zero_witness:
  "\<exists>st'. add_rsi flat_store 0 14 = Inr (st', 0) \<and>
           get_col (st' 0) ''rsi_14'' = Inr (replicate 3 (Fin 0))"
  by (rule rsi_flat_is_zero[of flat_store 0 3 5]) (simp add: flat_store_def get_col_def numeral_3_eq_3)

section \<open>Properties of the signal generator\<close>

text \<open>The signal table of the example row.\<close>

lemma generate_signals_bullish_row:
  "generate_signals bullish_row =
     Inr \<lparr>signal = [1], ma_signal = [1], macd_signal = [1], rsi_signal = [1], bb_signal = [1],
          pattern_signal = [2], sr_signal = [1], composite_score = [11]\<rparr>"
  by (simp add: generate_signals_def bullish_row_def get_col_def ebind_def loc_set_def
      loc_add_def mask_and_def pattern_pass_def bullish_patterns_def bearish_patterns_def
      signal_weights_def mul_weights_def sum_axis1_def fgt_def fge_def)

subsection \<open>Masked assignments\<close>

lemma set_loc_set: "set (loc_set m v c) \<subseteq> insert v (set c)"
  by (auto simp: loc_set_def set_zip)

lemma length_loc_set [simp]: "length (loc_set m v c) = min (length m) (length c)"
  by (simp add: loc_set_def)

lemma nth_loc_set:
  "i < length m \<Longrightarrow> i < length c \<Longrightarrow> loc_set m v c ! i = (if m ! i then v else c ! i)"
  by (simp add: loc_set_def)

lemma in_loc_add:
  assumes "x \<in> set (loc_add m v c)"
  shows "\<exists>y \<in> set c. x = y \<or> x = y + v"
proof -
  from assms obtain b y where zip: "(b, y) \<in> set (zip m c)" and x: "x = (if b then y + v else y)"
    by (auto simp: loc_add_def)
  from zip have "y \<in> set c" by (rule set_zip_rightD)
  with x show ?thesis by (cases b) auto
qed

lemma loc_add_up:
  assumes "\<forall>x \<in> set c. lo \<le> x \<and> x \<le> hi"
  shows "\<forall>x \<in> set (loc_add m 1 c). lo \<le> x \<and> x \<le> hi + 1"
  using assms by (auto dest!: in_loc_add)

lemma loc_add_down:
  assumes "\<forall>x \<in> set c. lo \<le> x \<and> x \<le> hi"
  shows "\<forall>x \<in> set (loc_add m (- 1) c). lo - 1 \<le> x \<and> x \<le> hi"
  using assms by (auto dest!: in_loc_add)

lemma pattern_step_up:
  assumes "\<forall>x \<in> set c. lo \<le> x \<and> x \<le> hi"
  shows "\<forall>x \<in> set (case map_of cs p of None \<Rightarrow> c
                     | Some col \<Rightarrow> loc_add (map (\<lambda>x. x = mk) col) 1 c). lo \<le> x \<and> x \<le> hi + 1"
proof (cases "map_of cs p")
  case None
  with assms show ?thesis by auto
next
  case (Some col)
  with loc_add_up[OF assms] show ?thesis by simp
qed

lemma pattern_step_down:
  assumes "\<forall>x \<in> set c. lo \<le> x \<and> x \<le> hi"
  shows "\<forall>x \<in> set (case map_of cs p of None \<Rightarrow> c
                     | Some col \<Rightarrow> loc_add (map (\<lambda>x. x = mk) col) (- 1) c). lo - 1 \<le> x \<and> x \<le> hi"
proof (cases "map_of cs p")
  case None
  with assms show ?thesis by auto
next
  case (Some col)
  with loc_add_down[OF assms] show ?thesis by simp
qed

lemma pattern_signal_range:
  "\<forall>x \<in> set (pattern_pass df (Fin (- 1)) (- 1) bearish_patterns
              (pattern_pass df (Fin 1) 1 bullish_patterns (replicate n 0))). - 3 \<le> x \<and> x \<le> 3"
proof -
  have z: "\<forall>x \<in> set (replicate n (0::int)). 0 \<le> x \<and> x \<le> 0" by simp
  note u = pattern_step_up[OF pattern_step_up[OF pattern_step_up[OF z]]]
  note d = pattern_step_down[OF pattern_step_down[OF pattern_step_down[OF u]]]
  show ?thesis
    unfolding pattern_pass_def bullish_patterns_def bearish_patterns_def foldl.simps
    using d by simp
qed

subsection \<open>The columns of a signal table\<close>

lemma generate_signals_columns:
  assumes "generate_signals df = Inr s"
  shows "\<exists>m1 m2. ma_signal s = loc_set m1 (- 1) (loc_set m2 1 (replicate (nrows df) 0))"
    and "\<exists>m1 m2. macd_signal s = loc_set m1 (- 1) (loc_set m2 1 (replicate (nrows df) 0))"
    and "\<exists>m1 m2. rsi_signal s = loc_set m1 (- 1) (loc_set m2 1 (replicate (nrows df) 0))"
    and "\<exists>m1 m2. bb_signal s = loc_set m1 (- 1) (loc_set m2 1 (replicate (nrows df) 0))"
    and "\<exists>m1 m2. sr_signal s = loc_set m1 (- 1) (loc_set m2 1 (replicate (nrows df) 0))"
    and "pattern_signal s = pattern_pass df (Fin (- 1)) (- 1) bearish_patterns
                         (pattern_pass df (Fin 1) 1 bullish_patterns (replicate (nrows df) 0))"
    and "composite_score s = sum_axis1 (nrows df)
           (mul_weights [ma_signal s, macd_signal s, rsi_signal s, bb_signal s,
                         pattern_signal s, sr_signal s] (map snd signal_weights))"
    and "signal s = loc_set (map (\<lambda>c. c \<le> - 3) (composite_score s)) (- 1)
                     (loc_set (map (\<lambda>c. 3 \<le> c) (composite_score s)) 1 (replicate (nrows df) 0))"
  using assms
  by (auto simp: generate_signals_def ebind_def Let_def split: sum.splits intro!: exI)

lemma wf_frame_col:
  assumes "wf_frame df" and "map_of (cols df) name = Some c"
  shows "length c = nrows df"
proof -
  from assms(2) have "(name, c) \<in> set (cols df)" by (rule map_of_SomeD)
  with assms(1) show ?thesis by (auto simp: wf_frame_def list_all_iff)
qed

lemma wf_frame_get_col:
  "wf_frame df \<Longrightarrow> get_col df name = Inr c \<Longrightarrow> length c = nrows df"
  by (auto simp: get_col_def split: option.splits dest: wf_frame_col)

lemma length_loc_add [simp]: "length (loc_add m v c) = min (length m) (length c)"
  by (simp add: loc_add_def)

lemma length_mask_and [simp]: "length (mask_and a b) = min (length a) (length b)"
  by (simp add: mask_and_def)

lemma length_pattern_pass:
  "wf_frame df \<Longrightarrow> length sig = nrows df \<Longrightarrow>
   length (pattern_pass df mk v names sig) = nrows df"
proof (induction names arbitrary: sig)
  case Nil
  then show ?case by (simp add: pattern_pass_def)
next
  case (Cons p names)
  have "length (case map_of (cols df) p of None \<Rightarrow> sig
                | Some c \<Rightarrow> loc_add (map (\<lambda>x. x = mk) c) v sig) = nrows df"
    using Cons.prems by (auto split: option.splits dest: wf_frame_col)
  from Cons.IH[OF Cons.prems(1) this] show ?case by (simp add: pattern_pass_def)
qed

lemma generate_signals_InrE:
  assumes "generate_signals df = Inr s"
  obtains ema_12 ema_26 sma_20 sma_50 macd macd_sig rsi_14 close_c bb_lower bb_upper
    support resistance
  where "get_col df ''ema_12'' = Inr ema_12" and "get_col df ''ema_26'' = Inr ema_26"
    and "get_col df ''sma_20'' = Inr sma_20" and "get_col df ''sma_50'' = Inr sma_50"
    and "get_col df ''macd'' = Inr macd" and "get_col df ''macd_signal'' = Inr macd_sig"
    and "get_col df ''rsi_14'' = Inr rsi_14" and "get_col df ''close'' = Inr close_c"
    and "get_col df ''bb_lower'' = Inr bb_lower" and "get_col df ''bb_upper'' = Inr bb_upper"
    and "get_col df ''support'' = Inr support" and "get_col df ''resistance'' = Inr resistance"
    and "ma_signal s =
           loc_set (mask_and (map2 flt ema_12 ema_26) (map2 flt sma_20 sma_50)) (- 1)
             (loc_set (mask_and (map2 fgt ema_12 ema_26) (map2 fgt sma_20 sma_50)) 1
                (replicate (nrows df) 0))"
    and "macd_signal s = loc_set (map2 flt macd macd_sig) (- 1)
                           (loc_set (map2 fgt macd macd_sig) 1 (replicate (nrows df) 0))"
    and "rsi_signal s = loc_set (map (\<lambda>r. fgt r (Fin 70)) rsi_14) (- 1)
                          (loc_set (map (\<lambda>r. flt r (Fin 30)) rsi_14) 1 (replicate (nrows df) 0))"
    and "bb_signal s = loc_set (map2 fgt close_c bb_upper) (- 1)
                         (loc_set (map2 flt close_c bb_lower) 1 (replicate (nrows df) 0))"
    and "sr_signal s = loc_set (map2 fge close_c resistance) (- 1)
                         (loc_set (map2 fle close_c support) 1 (replicate (nrows df) 0))"
  using assms
  by (auto simp: generate_signals_def ebind_def Let_def split: sum.splits)

lemma generate_signals_lengths:
  assumes "generate_signals df = Inr s" and "wf_frame df"
  shows "length (ma_signal s) = nrows df" and "length (macd_signal s) = nrows df"
    and "length (rsi_signal s) = nrows df" and "length (bb_signal s) = nrows df"
    and "length (pattern_signal s) = nrows df" and "length (sr_signal s) = nrows df"
proof -
  note len = wf_frame_get_col[OF assms(2)]
  from assms(1) show "length (ma_signal s) = nrows df"
    by (elim generate_signals_InrE) (simp add: len)
  from assms(1) show "length (macd_signal s) = nrows df"
    by (elim generate_signals_InrE) (simp add: len)
  from assms(1) show "length (rsi_signal s) = nrows df"
    by (elim generate_signals_InrE) (simp add: len)
  from assms(1) show "length (bb_signal s) = nrows df"
    by (elim generate_signals_InrE) (simp add: len)
  from assms(1) show "length (sr_signal s) = nrows df"
    by (elim generate_signals_InrE) (simp add: len)
  show "length (pattern_signal s) = nrows df"
    unfolding generate_signals_columns(6)[OF assms(1)]
    by (simp add: length_pattern_pass assms(2))
qed

lemma sum_axis1_weighted:
  assumes "length a = n" "length b = n" "length c = n" "length d = n" "length e = n"
    "length f = n"
  shows "length (sum_axis1 n (mul_weights [a, b, c, d, e, f] (map snd signal_weights))) = n"
    and "t < n \<Longrightarrow> sum_axis1 n (mul_weights [a, b, c, d, e, f] (map snd signal_weights)) ! t =
           2 * real_of_int (a ! t) + 3 / 2 * real_of_int (b ! t) + real_of_int (c ! t) +
           real_of_int (d ! t) + 2 * real_of_int (e ! t) + 3 / 2 * real_of_int (f ! t)"
  using assms by (simp_all add: sum_axis1_def mul_weights_def signal_weights_def)

subsection \<open>The composite score and the decision\<close>

text \<open>
  C1. On an enriched table whose columns all have the length of the index, every row
  of the signal table has a composite score equal to the weighted sum of its six
  sub-signals with the weights 2, 1.5, 1, 1, 2 and 1.5, and its decision is 1 when
  the score is at least 3, -1 when the score is at most -3, and 0 otherwise.
\<close>

theorem composite_score_decision:
  assumes "generate_signals df = Inr s" and "wf_frame df" and "t < nrows df"
  shows "length (composite_score s) = nrows df \<and> length (signal s) = nrows df \<and>
         composite_score s ! t =
           2 * real_of_int (ma_signal s ! t) + 3 / 2 * real_of_int (macd_signal s ! t) +
           real_of_int (rsi_signal s ! t) + real_of_int (bb_signal s ! t) +
           2 * real_of_int (pattern_signal s ! t) + 3 / 2 * real_of_int (sr_signal s ! t) \<and>
         signal s ! t = (if 3 \<le> composite_score s ! t then 1
                         else if composite_score s ! t \<le> - 3 then - 1 else 0)"
proof -
  note c = generate_signals_columns[OF assms(1)]
  note l = generate_signals_lengths[OF assms(1,2)]
  note w = sum_axis1_weighted[OF l(1) l(2) l(3) l(4) l(5) l(6)]
  have len: "length (composite_score s) = nrows df"
    unfolding c(7) by (rule w(1))
  have comp: "composite_score s ! t =
           2 * real_of_int (ma_signal s ! t) + 3 / 2 * real_of_int (macd_signal s ! t) +
           real_of_int (rsi_signal s ! t) + real_of_int (bb_signal s ! t) +
           2 * real_of_int (pattern_signal s ! t) + 3 / 2 * real_of_int (sr_signal s ! t)"
    unfolding c(7) by (rule w(2)[OF assms(3)])
  have lsig: "length (signal s) = nrows df"
    by (subst c(8)) (simp add: len)
  have sig: "signal s ! t = (if 3 \<le> composite_score s ! t then 1
                         else if composite_score s ! t \<le> - 3 then - 1 else 0)"
    by (subst c(8)) (use assms(3) len in \<open>simp add: nth_loc_set\<close>)
  from len lsig comp sig show ?thesis by blast
qed

lemma wf_bullish_row: "wf_frame bullish_row"
  by (simp add: wf_frame_def bullish_row_def)

theorem composite_score_decision_witness:
  "wf_frame bullish_row \<and>
   composite_score (projr (generate_signals bullish_row)) ! 0 = 11 \<and>
   signal (projr (generate_signals bullish_row)) ! 0 = 1"
  using composite_score_decision[OF generate_signals_bullish_row wf_bullish_row, of 0]
  by (simp add: generate_signals_bullish_row wf_bullish_row)

subsection \<open>The range of the sub-signals\<close>

lemma sub_signal_range:
  "\<forall>x \<in> set (loc_set m1 (- 1) (loc_set m2 1 (replicate n 0))). x = - 1 \<or> x = 0 \<or> x = 1"
  using set_loc_set[of m1 "- 1" "loc_set m2 1 (replicate n 0)"] set_loc_set[of m2 1 "replicate n 0"]
  by auto

text \<open>
  C4, as stated, fails for the pattern signal: on the example row two bullish
  markers are set and the pattern signal is 2.
\<close>

theorem pattern_signal_two:
  "map_sum id pattern_signal (generate_signals bullish_row) = Inr [2]"
  by (simp add: generate_signals_bullish_row)

text \<open>
  C4, amended. The moving-average, MACD, RSI, Bollinger and support/resistance
  sub-signals hold -1, 0 or 1 in every row; the pattern signal, which adds 1 for
  each of the three bullish markers and subtracts 1 for each of the three bearish
  ones, holds an integer from -3 to 3.
\<close>

theorem sub_signal_ranges:
  assumes "generate_signals df = Inr s"
  shows "(\<forall>x \<in> set (ma_signal s). x = - 1 \<or> x = 0 \<or> x = 1) \<and>
         (\<forall>x \<in> set (macd_signal s). x = - 1 \<or> x = 0 \<or> x = 1) \<and>
         (\<forall>x \<in> set (rsi_signal s). x = - 1 \<or> x = 0 \<or> x = 1) \<and>
         (\<forall>x \<in> set (bb_signal s). x = - 1 \<or> x = 0 \<or> x = 1) \<and>
         (\<forall>x \<in> set (sr_signal s). x = - 1 \<or> x = 0 \<or> x = 1) \<and>
         (\<forall>x \<in> set (pattern_signal s). - 3 \<le> x \<and> x \<le> 3)"
proof -
  note c = generate_signals_columns[OF assms]
  from c(1) have 1: "\<forall>x \<in> set (ma_signal s). x = - 1 \<or> x = 0 \<or> x = 1"
    using sub_signal_range by metis
  from c(2) have 2: "\<forall>x \<in> set (macd_signal s). x = - 1 \<or> x = 0 \<or> x = 1"
    using sub_signal_range by metis
  from c(3) have 3: "\<forall>x \<in> set (rsi_signal s). x = - 1 \<or> x = 0 \<or> x = 1"
    using sub_signal_range by metis
  from c(4) have 4: "\<forall>x \<in> set (bb_signal s). x = - 1 \<or> x = 0 \<or> x = 1"
    using sub_signal_range by metis
  from c(5) have 5: "\<forall>x \<in> set (sr_signal s). x = - 1 \<or> x = 0 \<or> x = 1"
    using sub_signal_range by metis
  have 6: "\<forall>x \<in> set (pattern_signal s). - 3 \<le> x \<and> x \<le> 3"
    unfolding c(6) by (rule pattern_signal_range)
  from 1 2 3 4 5 6 show ?thesis by blast
qed


theorem sub_signal_ranges_witness:
  "list_all (\<lambda>x. x = - 1 \<or> x = 0 \<or> x = 1) (ma_signal (projr (generate_signals bullish_row))) \<and>
   list_all (\<lambda>x. - 3 \<le> x \<and> x \<le> 3) (pattern_signal (projr (generate_signals bullish_row)))"
  using sub_signal_ranges[OF generate_signals_bullish_row]
  by (simp add: generate_signals_bullish_row)

section \<open>Properties of the pattern detectors\<close>

text \<open>
  C10. On a bar table of at most \<open>2 \<times> window\<close> rows the loop of every detector has
  no index to visit: each of the six detectors returns the all-zero marker array,
  and none raises.
\<close>

theorem short_series_no_pattern:
  assumes "length df \<le> 2 * window"
  shows "detect_head_shoulders df window = Inr (replicate (length df) 0) \<and>
         detect_double_top_bottom df Top window = Inr (replicate (length df) 0) \<and>
         detect_double_top_bottom df Bottom window = Inr (replicate (length df) 0) \<and>
         detect_triangle_patterns df Ascending window = Inr (replicate (length df) 0) \<and>
         detect_triangle_patterns df Descending window = Inr (replicate (length df) 0) \<and>
         detect_triangle_patterns df Symmetrical window = Inr (replicate (length df) 0)"
  using assms
  by (simp add: detect_head_shoulders_def detect_double_top_bottom_def
      detect_triangle_patterns_def)

theorem short_series_no_pattern_witness:
  "length two_bars \<le> 2 * 30 \<and>
   detect_head_shoulders two_bars 30 = Inr (replicate (length two_bars) 0) \<and>
   detect_double_top_bottom two_bars Top 30 = Inr (replicate (length two_bars) 0) \<and>
   detect_double_top_bottom two_bars Bottom 30 = Inr (replicate (length two_bars) 0) \<and>
   detect_triangle_patterns two_bars Ascending 30 = Inr (replicate (length two_bars) 0) \<and>
   detect_triangle_patterns two_bars Descending 30 = Inr (replicate (length two_bars) 0) \<and>
   detect_triangle_patterns two_bars Symmetrical 30 = Inr (replicate (length two_bars) 0)"
proof -
  have short: "length two_bars \<le> 2 * 30" by (simp add: two_bars_def)
  show ?thesis using short short_series_no_pattern[OF short] by simp
qed

subsection \<open>Longer series\<close>

text \<open>
  Beyond twice the window the head-and-shoulders detector can raise: where the
  highest high of the first window is not below that of the second, the left
  shoulder and the head are the same bar, the neckline slice between them is empty
  and its minimum raises \<^verbatim>\<open>ValueError\<close>.
\<close>

lemma hs_falling_step:
  "head_shoulders_step [10, 9, 8, 7, 6] [1, 1, 1, 1, 1] 2 2 [0, 0, 0, 0, 0] = Inl ValueError"
  by (simp add: head_shoulders_step_def slice_def np_max_def np_argmax_def np_min_def ebind_def Let_def)

lemma falling_range: "[2..<length falling_bars - 2] = [2]"
  by (simp add: falling_bars_def upt_rec)

lemma falling_cols: "map high falling_bars = [10, 9, 8, 7, 6]" "map low falling_bars = [1, 1, 1, 1, 1]"
   "replicate (length falling_bars) 0 = [0, 0, 0, 0, 0::real]"
  by (simp_all add: falling_bars_def numeral_eq_Suc)

lemma head_shoulders_raises: "detect_head_shoulders falling_bars 2 = Inl ValueError"
  unfolding detect_head_shoulders_def falling_range falling_cols
  by (simp add: hs_falling_step)

text \<open>
  The ascending and the symmetrical triangle detector can confirm on the same row:
  on the converging series both mark row 60 as bullish.
\<close>

lemma converging_range: "[30..<61 - 30] = [30::nat]"
  by (simp add: upt_rec)

lemma converging_cols:
  "map high converging_bars = map (\<lambda>i. 100 - real i / 1000) [0..<61]"
  "map low converging_bars = map (\<lambda>i. 50 + real i / 2) [0..<61]"
  "map close converging_bars = replicate 61 99"
  "length converging_bars = 61"
  by (simp_all add: converging_bars_def comp_def map_replicate_const)

lemma converging_ascending_step:
  "triangle_step (map (\<lambda>i. 100 - real i / 1000) [0..<61]) (map (\<lambda>i. 50 + real i / 2) [0..<61])
     (replicate 61 99) Ascending 30 30 (replicate 61 0) = Inr ((replicate 61 0)[60 := 1])"
  by (simp add: triangle_step_def slice_def np_max_def polyfit_slope_def mean_of_def
       first5_def last5_def ebind_def Let_def upt_rec power2_eq_square)

lemma converging_symmetrical_step:
  "triangle_step (map (\<lambda>i. 100 - real i / 1000) [0..<61]) (map (\<lambda>i. 50 + real i / 2) [0..<61])
     (replicate 61 99) Symmetrical 30 30 (replicate 61 0) = Inr ((replicate 61 0)[60 := 1])"
  by (simp add: triangle_step_def slice_def polyfit_slope_def mean_of_def
       ebind_def Let_def upt_rec power2_eq_square)

lemma triangles_mark_the_same_row:
  "detect_triangle_patterns converging_bars Ascending 30 = Inr ((replicate 61 0)[60 := 1])"
  "detect_triangle_patterns converging_bars Symmetrical 30 = Inr ((replicate 61 0)[60 := 1])"
  unfolding detect_triangle_patterns_def converging_cols converging_range
  by (simp_all only: for_loop.simps converging_ascending_step converging_symmetrical_step sum.case)

end
